theory Spec2Isabelle
  imports Complex_Main "HOL-Library.Product_Lexorder" "HOL-Library.Option_ord"
begin

section \<open>Text and values\<close>

text \<open>
  A Python \<open>str\<close> is a sequence of Unicode code points; it is modelled as the list of
  its code points. Literals of \<open>stock_api.py\<close> are written by code point
  (\<open>0x64A\<close> is the Arabic yeh, \<open>0x6CC\<close> the Persian one, and so on).
\<close>

type_synonym ustring = "nat list"

text \<open>
  The characters that \<open>str.strip()\<close> removes and that \<open>\s\<close> matches in a \<open>str\<close>
  pattern of \<open>re\<close>: the code points for which \<open>str.isspace\<close> holds.
\<close>

definition is_space :: "nat \<Rightarrow> bool" where
  "is_space c \<longleftrightarrow>
     (0x09 \<le> c \<and> c \<le> 0x0D) \<or> (0x1C \<le> c \<and> c \<le> 0x20) \<or> c = 0x85 \<or> c = 0xA0 \<or>
     c = 0x1680 \<or> (0x2000 \<le> c \<and> c \<le> 0x200A) \<or> c = 0x2028 \<or> c = 0x2029 \<or>
     c = 0x202F \<or> c = 0x205F \<or> c = 0x3000"

text \<open>\<open>s.strip()\<close>\<close>

definition strip :: "ustring \<Rightarrow> ustring" where
  "strip s = rev (dropWhile is_space (rev (dropWhile is_space s)))"

text \<open>\<open>s.replace(a, b)\<close> for a pattern \<open>a\<close> of one character.\<close>

definition replace_char :: "nat \<Rightarrow> ustring \<Rightarrow> ustring \<Rightarrow> ustring" where
  "replace_char a b s = concat (map (\<lambda>c. if c = a then b else [c]) s)"

text \<open>\<open>re.sub(r"\s+", " ", s)\<close>: every maximal run of whitespace becomes one space.\<close>

function collapse_spaces :: "ustring \<Rightarrow> ustring" where
  "collapse_spaces [] = []"
| "collapse_spaces (c # cs) =
     (if is_space c then 0x20 # collapse_spaces (dropWhile is_space cs)
      else c # collapse_spaces cs)"
  by pat_completeness auto
termination
  by (relation "measure length") (auto simp: length_dropWhile_le less_Suc_eq_le)

text \<open>
  \<open>normalize_persian\<close> after \<open>s = str(text)\<close>. The dictionary \<open>mapping\<close> has four
  entries (its third and fourth keys are the same character, the zero-width non-joiner),
  applied in insertion order.
\<close>

definition normalize_persian :: "ustring \<Rightarrow> ustring" where
  "normalize_persian s =
     strip (collapse_spaces
       (replace_char 0x640 []
         (replace_char 0x200C [0x20]
           (replace_char 0x643 [0x6A9]
             (replace_char 0x64A [0x6CC] s)))))"

text \<open>\<open>normalize_query\<close>, on a \<open>str\<close>; \<open>re.sub(r"[\<dots>?]", "", text)\<close> deletes the
  Arabic question mark \<open>0x61F\<close> and \<open>?\<close>.\<close>

definition normalize_query :: "ustring \<Rightarrow> ustring" where
  "normalize_query text =
     (if text = [] then []
      else normalize_persian (collapse_spaces
             (filter (\<lambda>c. c \<noteq> 0x61F \<and> c \<noteq> 0x3F) (strip text))))"


subsection \<open>Values\<close>

text \<open>
  A Python \<open>float\<close> is a double: a finite one is \<open>m * 2 ^ e\<close> for integers \<open>m\<close> and
  \<open>e\<close>; the others are the two infinities and the NaNs.
\<close>

datatype pyfloat = Finite int int | PosInf | NegInf | NaN

text \<open>
  The values of a catalog column as \<open>sqlite3\<close> hands them to Python (NULL, INTEGER, REAL
  and TEXT), which are also the arguments that \<open>parse_price\<close> and \<open>normalize_persian\<close>
  (declared on \<open>Any\<close>) tell apart.
\<close>

datatype pyval = PNone | PInt int | PFloat pyfloat | PStr ustring

text \<open>
  What \<open>stock_api.py\<close> takes from its libraries and from the interpreter, and what is
  computed in floating point. The theorems hold for every such library.
  \<^item> \<open>str_lower\<close>: \<open>str.lower()\<close> (the Unicode lower-casing);
  \<^item> \<open>float_str\<close>: \<open>str(x)\<close> of a float;
  \<^item> \<open>int_max_str_digits\<close>: \<open>sys.get_int_max_str_digits()\<close>, the most digits that
    \<open>int(s)\<close> accepts, 0 for no limit;
  \<^item> \<open>seq_ratio a b\<close>: the double \<open>difflib.SequenceMatcher(None, a, b).ratio()\<close>, as the
    rational number it is;
  \<^item> \<open>fuzz_weighted q name gf author translator pub group\<close>: the integer
    \<open>int(max(0.95 * s1, 0.90 * s5, 0.75 * s2, 0.65 * s3, 0.55 * s4, 0.50 * s6))\<close> of
    \<open>compute_relevance_score\<close>, where \<open>s1 = fuzz.partial_ratio(q, name)\<close> and so on
    (\<open>rapidfuzz\<close>);
  \<^item> \<open>sql_like v p\<close>: whether SQLite's \<open>v LIKE p\<close> is true for a value \<open>v\<close> that is
    not NULL.
\<close>

record pylib =
  str_lower :: "ustring \<Rightarrow> ustring"
  float_str :: "pyfloat \<Rightarrow> ustring"
  int_max_str_digits :: nat
  seq_ratio :: "ustring \<Rightarrow> ustring \<Rightarrow> rat"
  fuzz_weighted ::
    "ustring \<Rightarrow> ustring \<Rightarrow> ustring \<Rightarrow> ustring \<Rightarrow> ustring \<Rightarrow> ustring \<Rightarrow> ustring \<Rightarrow> int"
  sql_like :: "pyval \<Rightarrow> ustring \<Rightarrow> bool"

text \<open>\<open>str(n)\<close> of an integer: its decimal digits, after \<open>-\<close> when negative.\<close>

fun digits_of_nat :: "nat \<Rightarrow> ustring" where
  "digits_of_nat n =
     (if n < 10 then [0x30 + n] else digits_of_nat (n div 10) @ [0x30 + n mod 10])"

definition str_of_int :: "int \<Rightarrow> ustring" where
  "str_of_int n = (if n < 0 then 0x2D # digits_of_nat (nat (- n)) else digits_of_nat (nat n))"

text \<open>\<open>str(value)\<close>\<close>

fun py_str :: "pylib \<Rightarrow> pyval \<Rightarrow> ustring" where
  "py_str L PNone = [0x4E, 0x6F, 0x6E, 0x65]"
| "py_str L (PInt n) = str_of_int n"
| "py_str L (PFloat x) = float_str L x"
| "py_str L (PStr s) = s"

text \<open>\<open>normalize_persian(text)\<close> on any value: \<open>None\<close> gives the empty string, anything
  else is normalized as \<open>str(text)\<close>.\<close>

fun normalize_persian_any :: "pylib \<Rightarrow> pyval \<Rightarrow> ustring" where
  "normalize_persian_any L PNone = []"
| "normalize_persian_any L v = normalize_persian (py_str L v)"

text \<open>
  \<open>int(x)\<close> of a float: the finite ones are truncated towards zero, on the others the
  interpreter raises (\<open>None\<close> here).
\<close>

fun float_trunc :: "pyfloat \<Rightarrow> int option" where
  "float_trunc (Finite m e) =
     Some (if 0 \<le> e then m * 2 ^ nat e
           else if 0 \<le> m then m div 2 ^ nat (- e)
           else - ((- m) div 2 ^ nat (- e)))"
| "float_trunc PosInf = None"
| "float_trunc NegInf = None"
| "float_trunc NaN = None"

text \<open>
  The decimal digits of Unicode (general category Nd, Unicode 14): each entry is the
  first code point of a run of digits and the length of the run; the digit at offset
  \<open>i\<close> of a run has the value \<open>i mod 10\<close>. They are what \<open>\d\<close> matches in a \<open>str\<close>
  pattern and what \<open>int(s)\<close> reads as digits.
\<close>

definition decimal_ranges :: "(nat \<times> nat) list" where
  "decimal_ranges =
    [(0x30, 10), (0x660, 10), (0x6F0, 10), (0x7C0, 10), (0x966, 10), (0x9E6, 10),
     (0xA66, 10), (0xAE6, 10), (0xB66, 10), (0xBE6, 10), (0xC66, 10), (0xCE6, 10),
     (0xD66, 10), (0xDE6, 10), (0xE50, 10), (0xED0, 10), (0xF20, 10), (0x1040, 10),
     (0x1090, 10), (0x17E0, 10), (0x1810, 10), (0x1946, 10), (0x19D0, 10), (0x1A80, 10),
     (0x1A90, 10), (0x1B50, 10), (0x1BB0, 10), (0x1C40, 10), (0x1C50, 10), (0xA620, 10),
     (0xA8D0, 10), (0xA900, 10), (0xA9D0, 10), (0xA9F0, 10), (0xAA50, 10), (0xABF0, 10),
     (0xFF10, 10), (0x104A0, 10), (0x10D30, 10), (0x11066, 10), (0x110F0, 10),
     (0x11136, 10), (0x111D0, 10), (0x112F0, 10), (0x11450, 10), (0x114D0, 10),
     (0x11650, 10), (0x116C0, 10), (0x11730, 10), (0x118E0, 10), (0x11950, 10),
     (0x11C50, 10), (0x11D50, 10), (0x11DA0, 10), (0x16A60, 10), (0x16AC0, 10),
     (0x16B50, 10), (0x1D7CE, 50), (0x1E140, 10), (0x1E2F0, 10), (0x1E950, 10),
     (0x1FBF0, 10)]"

fun decimal_in :: "(nat \<times> nat) list \<Rightarrow> nat \<Rightarrow> nat option" where
  "decimal_in [] c = None"
| "decimal_in ((a, n) # rs) c =
     (if a \<le> c \<and> c < a + n then Some ((c - a) mod 10) else decimal_in rs c)"

definition decimal_value :: "nat \<Rightarrow> nat option" where
  "decimal_value c = decimal_in decimal_ranges c"

definition is_digit :: "nat \<Rightarrow> bool" where
  "is_digit c \<longleftrightarrow> decimal_value c \<noteq> None"

text \<open>
  \<open>int(s)\<close> of a \<open>str\<close>, in base 10: whitespace around the number is skipped (the
  characters of \<open>is_space\<close> except the four ASCII separators \<open>0x1C\<close> to \<open>0x1F\<close>), one
  sign may come first, and the rest is digits, with single underscores allowed between
  two digits. \<open>int_body\<close> reads the rest: \<open>u\<close> tells that a digit must come next, \<open>v\<close> is
  the value and \<open>k\<close> the number of digits read so far. \<open>None\<close> is the \<open>ValueError\<close>,
  also raised for more digits than the limit of the interpreter, which it looks at for
  more than 640 digits only.
\<close>

definition int_space :: "nat \<Rightarrow> bool" where
  "int_space c \<longleftrightarrow> is_space c \<and> \<not> (0x1C \<le> c \<and> c \<le> 0x1F)"

fun int_body :: "bool \<Rightarrow> nat \<Rightarrow> nat \<Rightarrow> ustring \<Rightarrow> (nat \<times> nat) option" where
  "int_body u v k [] = (if u then None else Some (v, k))"
| "int_body u v k (c # cs) =
     (if c = 0x5F then (if u then None else int_body True v k cs)
      else case decimal_value c of
             None \<Rightarrow> None
           | Some d \<Rightarrow> int_body False (10 * v + d) (Suc k) cs)"

definition py_int_str :: "pylib \<Rightarrow> ustring \<Rightarrow> int option" where
  "py_int_str L s =
     (let t = rev (dropWhile int_space (rev (dropWhile int_space s)));
          neg = (case t of [] \<Rightarrow> False | c # _ \<Rightarrow> c = 0x2D);
          b = (case t of [] \<Rightarrow> [] | c # r \<Rightarrow> if c = 0x2B \<or> c = 0x2D then r else t)
      in case int_body True 0 0 b of
           None \<Rightarrow> None
         | Some (v, k) \<Rightarrow>
             if 640 < k \<and> 0 < int_max_str_digits L \<and> int_max_str_digits L < k then None
             else Some (if neg then - int v else int v))"

text \<open>\<open>int(x)\<close> as \<open>search\<close> applies it to a quantity that is not \<open>None\<close>, inside
  \<open>try\<close>: \<open>None\<close> is any exception.\<close>

fun py_int :: "pylib \<Rightarrow> pyval \<Rightarrow> int option" where
  "py_int L PNone = None"
| "py_int L (PInt n) = Some n"
| "py_int L (PFloat x) = float_trunc x"
| "py_int L (PStr s) = py_int_str L s"

text \<open>
  \<open>parse_price\<close>. The pattern \<open>_price_digits\<close> is \<open>[^\d]+\<close>, so
  \<open>_price_digits.sub("", s)\<close> deletes every character that is not a digit; the three
  \<open>replace\<close> calls delete \<open>,\<close>, the Arabic thousands separator \<open>0x66C\<close> and the space.
\<close>

fun parse_price :: "pylib \<Rightarrow> pyval \<Rightarrow> int option" where
  "parse_price L PNone = None"
| "parse_price L (PInt n) = Some n"
| "parse_price L (PFloat x) = float_trunc x"
| "parse_price L (PStr v) =
     (let s = strip (replace_char 0x20 [] (replace_char 0x66C [] (replace_char 0x2C [] v)));
          s = filter is_digit s
      in if s = [] then None else py_int_str L s)"

definition like_pattern :: "ustring \<Rightarrow> ustring" where
  "like_pattern term = [0x25] @ term @ [0x25]"

text \<open>The double that the literal \<open>0.72\<close> denotes.\<close>

definition cutoff :: rat where
  "cutoff = 3242591731706757 / 4503599627370496"

definition similarity :: "pylib \<Rightarrow> ustring \<Rightarrow> ustring \<Rightarrow> rat" where
  "similarity L a b = seq_ratio L (normalize_persian a) (normalize_persian b)"

section \<open>The search intent\<close>

text \<open>The models \<open>TextFilter\<close>, \<open>GroupFamilyTags\<close>, \<open>PriceFilter\<close>, \<open>StockFilter\<close>,
  \<open>Filters\<close>, \<open>SortSpec\<close>, \<open>UISpec\<close> and \<open>SearchIntent\<close>, after validation.\<close>

record text_filter =
  tf_include :: "ustring list"
  tf_exclude :: "ustring list"

record group_family_tags =
  include_all :: "ustring list"
  include_any :: "ustring list"
  gf_exclude :: "ustring list"

record price_filter =
  price_min :: "int option"
  price_max :: "int option"

record stock_filter =
  in_stock_only :: "bool option"

record filters =
  f_name :: text_filter
  f_author_or_type_or_age :: text_filter
  f_translator_or_playtime :: text_filter
  f_publisher_or_brand :: text_filter
  f_group_main :: text_filter
  groupfamily_tags :: group_family_tags
  f_price :: price_filter
  f_stock :: stock_filter

datatype sort_by = Relevance | Price | Qty

datatype sort_direction = Asc | Desc

record sort_spec =
  sort_by :: sort_by
  direction :: sort_direction

record ui_spec =
  need_clarification :: bool
  clarification_question :: "ustring option"

text \<open>\<open>category_code: Optional[Union[str, List[str]]]\<close>\<close>

datatype category = NoCategory | OneCategory ustring | Categories "ustring list"

record search_intent =
  version :: ustring
  category_code :: category
  uploaded_only :: bool
  query_text :: ustring
  filters :: filters
  sort_spec :: sort_spec
  limit :: int
  ui :: ui_spec
  debug :: bool

section \<open>The compiled query\<close>

text \<open>The ten columns of the table \<open>products\<close> that the queries name.\<close>

datatype column =
  COL_NAME | COL_QTY | COL_PRICE | COL_CAT | COL_AUTHOR | COL_TRANSLATOR | COL_PUBLISHER
  | COL_GROUP | COL_SYS | COL_GROUPFAMILY

text \<open>
  The conditions that \<open>build_sql\<close> and \<open>search\<close> append to \<open>where\<close>, by the text they
  have in the source:
  \<^item> \<open>IsNotNull c\<close>: \<open>"c" IS NOT NULL\<close>;
  \<^item> \<open>TrimNotEmpty c\<close>: \<open>TRIM("c") != ""\<close>;
  \<^item> \<open>Equals c\<close>: \<open>"c" = ?\<close>;
  \<^item> \<open>InList c n\<close>: \<open>"c" IN (?, \<dots>, ?)\<close> with \<open>n\<close> placeholders;
  \<^item> \<open>Like c\<close>: \<open>"c" LIKE ?\<close>;
  \<^item> \<open>AnyLike [c1, \<dots>, cn]\<close>: \<open>("c1" LIKE ? OR \<dots> OR "cn" LIKE ?)\<close>;
  \<^item> \<open>NullOrNotLike c\<close>: \<open>("c" IS NULL OR "c" NOT LIKE ?)\<close>.
  The conditions of a query are joined by \<open>AND\<close>; with none the text is \<open>1=1\<close>. Every
  query selects the same ten columns from \<open>products\<close>, so a query is its conditions
  and its \<open>LIMIT\<close>; its parameters are the values for the placeholders, in order.
\<close>

datatype condition =
  IsNotNull column | TrimNotEmpty column | Equals column | InList column nat | Like column
  | AnyLike "column list" | NullOrNotLike column

record sql_query =
  sql_where :: "condition list"
  sql_limit :: nat

type_synonym compiled = "condition list \<times> ustring list"

text \<open>The seven strings of \<open>pen_keywords\<close>.\<close>

definition pen_keywords :: "ustring list" where
  "pen_keywords =
    [[0x62E, 0x648, 0x62F, 0x6A9, 0x627, 0x631],
     [0x62E, 0x648, 0x62F, 0x646, 0x648, 0x6CC, 0x633],
     [0x631, 0x648, 0x627, 0x646, 0x20, 0x646, 0x648, 0x6CC, 0x633],
     [0x647, 0x62F, 0x6CC, 0x647],
     [0x642, 0x644, 0x645],
     [0x646, 0x641, 0x6CC, 0x633],
     [0x644, 0x627, 0x6A9, 0x686, 0x631, 0x6CC]]"

text \<open>\<open>k in q\<close> for two strings: \<open>k\<close> occurs in \<open>q\<close> as a substring.\<close>

fun starts_with :: "ustring \<Rightarrow> ustring \<Rightarrow> bool" where
  "starts_with [] q = True"
| "starts_with (a # k) [] = False"
| "starts_with (a # k) (b # q) = (a = b \<and> starts_with k q)"

fun contains :: "ustring \<Rightarrow> ustring \<Rightarrow> bool" where
  "contains k [] = (k = [])"
| "contains k (c # q) = (starts_with k (c # q) \<or> contains k q)"

text \<open>The truth value of \<open>intent.category_code\<close> in \<open>if intent.category_code:\<close>.\<close>

fun category_given :: "category \<Rightarrow> bool" where
  "category_given NoCategory = False"
| "category_given (OneCategory c) = (c \<noteq> [])"
| "category_given (Categories cs) = (cs \<noteq> [])"

text \<open>The list \<open>cats\<close> as first assigned: the codes normalized, stripped and
  lower-cased; in a list the codes that are blank are left out.\<close>

fun listed_cats :: "pylib \<Rightarrow> category \<Rightarrow> ustring list" where
  "listed_cats L NoCategory = []"
| "listed_cats L (OneCategory c) = [str_lower L (strip (normalize_persian c))]"
| "listed_cats L (Categories cs) =
     map (\<lambda>c. str_lower L (strip (normalize_persian c))) (filter (\<lambda>c. strip c \<noteq> []) cs)"

text \<open>The list \<open>cats\<close> after the optional widening of \<open>["s"]\<close> to \<open>["s", "l"]\<close>.\<close>

definition resolved_cats :: "pylib \<Rightarrow> search_intent \<Rightarrow> ustring list" where
  "resolved_cats L intent =
     (let cats = listed_cats L (category_code intent);
          q = normalize_persian (query_text intent)
      in if cats = [[0x73]] \<and> list_ex (\<lambda>k. contains k q) pen_keywords
         then [[0x73], [0x6C]] else cats)"

text \<open>The first two blocks of \<open>build_sql\<close>: \<open>uploaded_only\<close> and \<open>category_code\<close>.\<close>

definition uploaded_sql :: "search_intent \<Rightarrow> compiled" where
  "uploaded_sql intent =
     (if uploaded_only intent
      then ([IsNotNull COL_GROUPFAMILY, TrimNotEmpty COL_GROUPFAMILY], [])
      else ([], []))"

definition category_sql :: "pylib \<Rightarrow> search_intent \<Rightarrow> compiled" where
  "category_sql L intent =
     (if category_given (category_code intent)
      then (case resolved_cats L intent of
              [c] \<Rightarrow> ([Equals COL_CAT], [c])
            | cats \<Rightarrow> ([InList COL_CAT (length cats)], cats))
      else ([], []))"

text \<open>
  The alias map \<open>BRAND_ALIASES\<close> is a dictionary read from JSON: its items, in the order
  of the file, are a list of pairs of a canonical brand and its aliases.
  \<open>expand_brand_terms\<close> returns the group of the first item that holds the term.
\<close>

type_synonym brand_aliases = "(ustring \<times> ustring list) list"

fun expand_brand_terms :: "pylib \<Rightarrow> brand_aliases \<Rightarrow> ustring \<Rightarrow> ustring list" where
  "expand_brand_terms L [] user_term = [user_term]"
| "expand_brand_terms L ((canonical, aliases) # rest) user_term =
     (let t_norm = str_lower L (normalize_persian user_term);
          all_terms = canonical # aliases;
          all_norm = map (\<lambda>x. str_lower L (normalize_persian x)) all_terms
      in if t_norm \<in> set all_norm then all_terms
         else expand_brand_terms L rest user_term)"

text \<open>\<open>apply_text_filter\<close>: what one include term and one exclude term append, then
  the two loops.\<close>

definition include_sql :: "pylib \<Rightarrow> brand_aliases \<Rightarrow> column \<Rightarrow> ustring \<Rightarrow> compiled" where
  "include_sql L B col t0 =
     (let t = normalize_persian t0
      in if t = [] then ([], [])
         else let terms = (if col = COL_PUBLISHER \<and> B \<noteq> [] then expand_brand_terms L B t
                           else [t])
              in ([AnyLike (map (\<lambda>_. col) terms)],
                  map (\<lambda>term. like_pattern (normalize_persian term)) terms))"

definition exclude_sql :: "column \<Rightarrow> ustring \<Rightarrow> compiled" where
  "exclude_sql col t0 =
     (let t = normalize_persian t0
      in if t = [] then ([], []) else ([NullOrNotLike col], [like_pattern t]))"

definition join_sql :: "compiled list \<Rightarrow> compiled" where
  "join_sql cs = (concat (map fst cs), concat (map snd cs))"

definition apply_text_filter ::
    "pylib \<Rightarrow> brand_aliases \<Rightarrow> column \<Rightarrow> text_filter \<Rightarrow> compiled" where
  "apply_text_filter L B col tf =
     join_sql (map (include_sql L B col) (tf_include tf) @ map (exclude_sql col) (tf_exclude tf))"

text \<open>The three loops over \<open>intent.filters.groupfamily_tags\<close>.\<close>

definition groupfamily_sql :: "group_family_tags \<Rightarrow> compiled" where
  "groupfamily_sql gf =
     join_sql
       (map (\<lambda>t0. let t = normalize_persian t0
                  in if t = [] then ([], []) else ([Like COL_GROUPFAMILY], [like_pattern t]))
            (include_all gf)
        @ [let any_terms = filter (\<lambda>t. t \<noteq> []) (map normalize_persian (include_any gf))
           in if any_terms = [] then ([], [])
              else ([AnyLike (map (\<lambda>_. COL_GROUPFAMILY) any_terms)],
                    map like_pattern any_terms)]
        @ map (exclude_sql COL_GROUPFAMILY) (gf_exclude gf))"

definition user_filters_present :: "search_intent \<Rightarrow> bool" where
  "user_filters_present intent \<longleftrightarrow>
     category_code intent \<noteq> NoCategory
     \<or> tf_include (f_name (filters intent)) \<noteq> [] \<or> tf_exclude (f_name (filters intent)) \<noteq> []
     \<or> tf_include (f_author_or_type_or_age (filters intent)) \<noteq> []
     \<or> tf_exclude (f_author_or_type_or_age (filters intent)) \<noteq> []
     \<or> tf_include (f_translator_or_playtime (filters intent)) \<noteq> []
     \<or> tf_exclude (f_translator_or_playtime (filters intent)) \<noteq> []
     \<or> tf_include (f_publisher_or_brand (filters intent)) \<noteq> []
     \<or> tf_exclude (f_publisher_or_brand (filters intent)) \<noteq> []
     \<or> tf_include (f_group_main (filters intent)) \<noteq> []
     \<or> tf_exclude (f_group_main (filters intent)) \<noteq> []
     \<or> include_all (groupfamily_tags (filters intent)) \<noteq> []
     \<or> include_any (groupfamily_tags (filters intent)) \<noteq> []
     \<or> gf_exclude (groupfamily_tags (filters intent)) \<noteq> []"

definition query_text_sql :: "search_intent \<Rightarrow> compiled" where
  "query_text_sql intent =
     (let qtext = normalize_query (query_text intent)
      in if qtext \<noteq> [] \<and> \<not> user_filters_present intent
         then ([AnyLike [COL_NAME, COL_AUTHOR, COL_TRANSLATOR, COL_PUBLISHER, COL_GROUP,
                         COL_GROUPFAMILY]],
               replicate 6 (like_pattern qtext))
         else ([], []))"

text \<open>\<open>build_sql\<close>: the query and its parameters.\<close>

definition build_sql :: "pylib \<Rightarrow> brand_aliases \<Rightarrow> search_intent \<Rightarrow> sql_query \<times> ustring list" where
  "build_sql L B intent =
     (let (wh, params) =
        join_sql
          [uploaded_sql intent,
           category_sql L intent,
           apply_text_filter L B COL_NAME (f_name (filters intent)),
           apply_text_filter L B COL_AUTHOR (f_author_or_type_or_age (filters intent)),
           apply_text_filter L B COL_TRANSLATOR (f_translator_or_playtime (filters intent)),
           apply_text_filter L B COL_PUBLISHER (f_publisher_or_brand (filters intent)),
           apply_text_filter L B COL_GROUP (f_group_main (filters intent)),
           groupfamily_sql (groupfamily_tags (filters intent)),
           query_text_sql intent]
      in (\<lparr>sql_where = wh, sql_limit = 1200\<rparr>, params))"

section \<open>The catalog store\<close>

text \<open>A row of a result set: the ten selected columns under their aliases.\<close>

record row =
  r_name :: pyval
  r_qty :: pyval
  r_price :: pyval
  r_category_code :: pyval
  r_author_or_type_or_age :: pyval
  r_translator_or_playtime :: pyval
  r_publisher_or_brand :: pyval
  r_group_main :: pyval
  r_system_code :: pyval
  r_groupfamily :: pyval

fun column_value :: "row \<Rightarrow> column \<Rightarrow> pyval" where
  "column_value r COL_NAME = r_name r"
| "column_value r COL_QTY = r_qty r"
| "column_value r COL_PRICE = r_price r"
| "column_value r COL_CAT = r_category_code r"
| "column_value r COL_AUTHOR = r_author_or_type_or_age r"
| "column_value r COL_TRANSLATOR = r_translator_or_playtime r"
| "column_value r COL_PUBLISHER = r_publisher_or_brand r"
| "column_value r COL_GROUP = r_group_main r"
| "column_value r COL_SYS = r_system_code r"
| "column_value r COL_GROUPFAMILY = r_groupfamily r"

text \<open>
  How SQLite decides the conditions on a row. \<open>TRIM\<close> removes the spaces (\<open>0x20\<close>, no
  other character) at both ends of a text, and a number has a text that is not empty. A
  parameter is always a text here, and a value equals it when it is the same text (the
  columns compared hold texts: no conversion between numbers and texts is modelled). A
  comparison with NULL is not true, except in \<open>IS NULL\<close>.
\<close>

definition sql_trim :: "ustring \<Rightarrow> ustring" where
  "sql_trim s = rev (dropWhile (\<lambda>c. c = 0x20) (rev (dropWhile (\<lambda>c. c = 0x20) s)))"

fun trim_not_empty :: "pyval \<Rightarrow> bool" where
  "trim_not_empty PNone = False"
| "trim_not_empty (PStr s) = (sql_trim s \<noteq> [])"
| "trim_not_empty (PInt n) = True"
| "trim_not_empty (PFloat x) = True"

definition like :: "pylib \<Rightarrow> pyval \<Rightarrow> ustring \<Rightarrow> bool" where
  "like L v p \<longleftrightarrow> v \<noteq> PNone \<and> sql_like L v p"

text \<open>A condition takes as many parameters as it has placeholders.\<close>

fun placeholders :: "condition \<Rightarrow> nat" where
  "placeholders (IsNotNull c) = 0"
| "placeholders (TrimNotEmpty c) = 0"
| "placeholders (Equals c) = 1"
| "placeholders (InList c n) = n"
| "placeholders (Like c) = 1"
| "placeholders (AnyLike cs) = length cs"
| "placeholders (NullOrNotLike c) = 1"

fun condition_holds :: "pylib \<Rightarrow> row \<Rightarrow> condition \<Rightarrow> ustring list \<Rightarrow> bool" where
  "condition_holds L r (IsNotNull c) ps = (column_value r c \<noteq> PNone)"
| "condition_holds L r (TrimNotEmpty c) ps = trim_not_empty (column_value r c)"
| "condition_holds L r (Equals c) ps = list_ex (\<lambda>p. column_value r c = PStr p) ps"
| "condition_holds L r (InList c n) ps = list_ex (\<lambda>p. column_value r c = PStr p) ps"
| "condition_holds L r (Like c) ps = list_ex (\<lambda>p. like L (column_value r c) p) ps"
| "condition_holds L r (AnyLike cs) ps =
     list_ex (\<lambda>(c, p). like L (column_value r c) p) (zip cs ps)"
| "condition_holds L r (NullOrNotLike c) ps =
     list_all (\<lambda>p. column_value r c = PNone \<or> \<not> like L (column_value r c) p) ps"

fun where_holds :: "pylib \<Rightarrow> row \<Rightarrow> condition list \<Rightarrow> ustring list \<Rightarrow> bool" where
  "where_holds L r [] ps = True"
| "where_holds L r (c # cs) ps =
     (condition_holds L r c (take (placeholders c) ps)
      \<and> where_holds L r cs (drop (placeholders c) ps))"

text \<open>
  \<open>cur.execute(sql, params)\<close> and \<open>cur.fetchall()\<close> on the table, whose rows are listed
  in the order in which SQLite scans them: the first \<open>LIMIT\<close> rows that satisfy the
  conditions. The errors that SQLite raises on a statement beyond its limits of size
  and on a parameter that has no UTF-8 encoding are not part of the model.
\<close>

definition execute :: "pylib \<Rightarrow> row list \<Rightarrow> sql_query \<Rightarrow> ustring list \<Rightarrow> row list" where
  "execute L table q params =
     take (sql_limit q) (filter (\<lambda>r. where_holds L r (sql_where q) params) table)"

section \<open>Ranking and post-filter\<close>

text \<open>The dictionary \<open>d\<close> that \<open>search\<close> makes of a row: the row with its display fields
  normalized, and the keys \<open>price_value\<close>, \<open>qty_value\<close> and \<open>score\<close>.\<close>

record item =
  name :: ustring
  qty :: pyval
  price :: pyval
  item_category_code :: ustring
  author_or_type_or_age :: ustring
  translator_or_playtime :: ustring
  publisher_or_brand :: ustring
  group_main :: ustring
  system_code :: pyval
  groupfamily :: ustring
  price_value :: "int option"
  qty_value :: "int option"
  score :: int

text \<open>In \<open>compute_relevance_score\<close> the fields of the row are normalized once more.\<close>

definition compute_relevance_score :: "pylib \<Rightarrow> search_intent \<Rightarrow> item \<Rightarrow> int" where
  "compute_relevance_score L intent d =
     (let q = normalize_query (query_text intent)
      in if q = [] then 0
         else fuzz_weighted L q
                (normalize_persian (name d))
                (normalize_persian (groupfamily d))
                (normalize_persian (author_or_type_or_age d))
                (normalize_persian (translator_or_playtime d))
                (normalize_persian (publisher_or_brand d))
                (normalize_persian (group_main d)))"

definition passes_price_filter :: "pylib \<Rightarrow> search_intent \<Rightarrow> item \<Rightarrow> bool" where
  "passes_price_filter L intent d =
     (let pmin = price_min (f_price (filters intent));
          pmax = price_max (f_price (filters intent))
      in if pmin = None \<and> pmax = None then True
         else case parse_price L (price d) of
                None \<Rightarrow> False
              | Some price_val \<Rightarrow>
                  (case pmin of
                     Some lo \<Rightarrow> if price_val < lo then False
                                else (case pmax of Some hi \<Rightarrow> \<not> (price_val > hi) | None \<Rightarrow> True)
                   | None \<Rightarrow> (case pmax of Some hi \<Rightarrow> \<not> (price_val > hi) | None \<Rightarrow> True)))"

section \<open>The search\<close>

datatype error = RuntimeError | AttributeError

text \<open>
  \<open>list.sort(key=key, reverse=reverse)\<close>: a stable sort by the key; with \<open>reverse\<close> the
  keys descend and equal keys still keep their order.
\<close>

definition py_sort :: "('a \<Rightarrow> 'k::linorder) \<Rightarrow> bool \<Rightarrow> 'a list \<Rightarrow> 'a list" where
  "py_sort key reverse xs = (if reverse then rev (sort_key key (rev xs)) else sort_key key xs)"

text \<open>
  \<open>normalize_query(intent.filters.name.include[0])\<close>, or else the query text (which
  \<open>search\<close> has normalized by then).
\<close>

definition name_seed :: "search_intent \<Rightarrow> ustring" where
  "name_seed intent =
     (case tf_include (f_name (filters intent)) of
        t # _ \<Rightarrow> normalize_query t
      | [] \<Rightarrow> query_text intent)"

text \<open>The query of the fallback: \<open>uploaded_only\<close> and the categories as listed, not
  widened.\<close>

definition fallback_sql :: "pylib \<Rightarrow> search_intent \<Rightarrow> sql_query \<times> ustring list" where
  "fallback_sql L intent =
     (let (wh, p) =
        join_sql
          [if uploaded_only intent
           then ([IsNotNull COL_GROUPFAMILY, TrimNotEmpty COL_GROUPFAMILY], [])
           else ([], []),
           if category_given (category_code intent)
           then (let cats = listed_cats L (category_code intent)
                 in if cats \<noteq> [] then ([InList COL_CAT (length cats)], cats) else ([], []))
           else ([], [])]
      in (\<lparr>sql_where = wh, sql_limit = 2500\<rparr>, p))"

text \<open>
  \<open>normalize_query(r["name"] or "")\<close>: a name that is a number other than zero reaches
  \<open>text.strip()\<close>, which a number does not have.
\<close>

fun candidate_name :: "pyval \<Rightarrow> error + ustring" where
  "candidate_name PNone = Inr []"
| "candidate_name (PStr s) = Inr (normalize_query s)"
| "candidate_name (PInt n) = (if n = 0 then Inr [] else Inl AttributeError)"
| "candidate_name (PFloat (Finite m e)) = (if m = 0 then Inr [] else Inl AttributeError)"
| "candidate_name (PFloat x) = Inl AttributeError"

text \<open>The loop over the candidates, which fills \<open>fuzzy_matches\<close>.\<close>

fun fuzzy_scan :: "pylib \<Rightarrow> ustring \<Rightarrow> row list \<Rightarrow> error + (rat \<times> row) list" where
  "fuzzy_scan L seed [] = Inr []"
| "fuzzy_scan L seed (r # rs) =
     (case candidate_name (r_name r) of
        Inl e \<Rightarrow> Inl e
      | Inr pname \<Rightarrow>
          (case fuzzy_scan L seed rs of
             Inl e \<Rightarrow> Inl e
           | Inr ms \<Rightarrow>
               if pname = [] then Inr ms
               else let score = similarity L seed pname
                    in if score \<ge> cutoff then Inr ((score, r) # ms) else Inr ms))"

definition fuzzy_fallback :: "pylib \<Rightarrow> row list \<Rightarrow> search_intent \<Rightarrow> error + row list" where
  "fuzzy_fallback L table intent =
     (let (q, p) = fallback_sql L intent;
          candidates = execute L table q p
      in case fuzzy_scan L (name_seed intent) candidates of
           Inl e \<Rightarrow> Inl e
         | Inr fuzzy_matches \<Rightarrow> Inr (map snd (take 1200 (py_sort fst True fuzzy_matches))))"

text \<open>The rows that \<open>search\<close> goes on with: those of the query of \<open>build_sql\<close>, or
  those of the fallback.\<close>

definition select_rows ::
    "pylib \<Rightarrow> brand_aliases \<Rightarrow> row list \<Rightarrow> search_intent \<Rightarrow> error + row list" where
  "select_rows L B table intent =
     (let (sql, params) = build_sql L B intent;
          rows = execute L table sql params
      in if rows = [] \<and> name_seed intent \<noteq> [] then fuzzy_fallback L table intent
         else Inr rows)"

text \<open>The body of the loop over the rows, up to the price filter.\<close>

definition make_item :: "pylib \<Rightarrow> row \<Rightarrow> item" where
  "make_item L r =
     \<lparr>name = normalize_persian_any L (r_name r),
      qty = r_qty r,
      price = r_price r,
      item_category_code = str_lower L (strip (normalize_persian_any L (r_category_code r))),
      author_or_type_or_age = normalize_persian_any L (r_author_or_type_or_age r),
      translator_or_playtime = normalize_persian_any L (r_translator_or_playtime r),
      publisher_or_brand = normalize_persian_any L (r_publisher_or_brand r),
      group_main = normalize_persian_any L (r_group_main r),
      system_code = r_system_code r,
      groupfamily = normalize_persian_any L (r_groupfamily r),
      price_value = parse_price L (r_price r),
      qty_value = py_int L (r_qty r),
      score = 0\<rparr>"

text \<open>\<open>category_counts[cc] = category_counts.get(cc, 0) + 1\<close> on a dictionary, which
  keeps its keys in the order of their first insertion.\<close>

fun count_category :: "(ustring \<times> nat) list \<Rightarrow> ustring \<Rightarrow> (ustring \<times> nat) list" where
  "count_category [] cc = [(cc, 1)]"
| "count_category ((k, n) # kvs) cc =
     (if k = cc then (k, n + 1) # kvs else (k, n) # count_category kvs cc)"

text \<open>The loop over the rows: \<open>items\<close> and \<open>category_counts\<close>.\<close>

fun collect ::
    "pylib \<Rightarrow> search_intent \<Rightarrow> item list \<Rightarrow> (ustring \<times> nat) list \<Rightarrow> row list
      \<Rightarrow> item list \<times> (ustring \<times> nat) list" where
  "collect L intent items category_counts [] = (items, category_counts)"
| "collect L intent items category_counts (r # rows) =
     (let d = make_item L r
      in if \<not> passes_price_filter L intent d then collect L intent items category_counts rows
         else let d = d\<lparr>score := compute_relevance_score L intent d\<rparr>
              in collect L intent (items @ [d])
                   (count_category category_counts (item_category_code d)) rows)"

text \<open>The three sorts.\<close>

definition sort_items :: "search_intent \<Rightarrow> item list \<Rightarrow> item list" where
  "sort_items intent items =
     (let reverse = (direction (sort_spec intent) = Desc)
      in case sort_by (sort_spec intent) of
           Price \<Rightarrow> py_sort (\<lambda>x. (price_value x = None, price_value x)) reverse items
         | Qty \<Rightarrow> py_sort (\<lambda>x. (qty_value x = None, qty_value x)) reverse items
         | Relevance \<Rightarrow> py_sort score True items)"

record result =
  res_name :: ustring
  res_qty :: "int option"
  res_price :: "int option"
  res_category_code :: ustring
  res_author_or_type_or_age :: ustring
  res_translator_or_playtime :: ustring
  res_publisher_or_brand :: ustring
  res_group_main :: ustring
  res_groupfamily :: ustring
  res_system_code :: pyval
  res_score :: int

definition result_of :: "item \<Rightarrow> result" where
  "result_of it =
     \<lparr>res_name = name it,
      res_qty = qty_value it,
      res_price = price_value it,
      res_category_code = item_category_code it,
      res_author_or_type_or_age = author_or_type_or_age it,
      res_translator_or_playtime = translator_or_playtime it,
      res_publisher_or_brand = publisher_or_brand it,
      res_group_main = group_main it,
      res_groupfamily = groupfamily it,
      res_system_code = system_code it,
      res_score = score it\<rparr>"

text \<open>The block \<open>response["debug"]\<close>, without the two paths of the configuration.\<close>

record debug_info =
  dbg_sql :: sql_query
  dbg_params :: "ustring list"
  dbg_aliases_loaded :: bool

record response =
  resp_version :: ustring
  resp_query_text :: ustring
  category_code_used :: category
  resp_uploaded_only :: bool
  count :: nat
  category_distribution :: "(ustring \<times> nat) list"
  results :: "result list"
  resp_debug :: "debug_info option"

definition limit_final :: "search_intent \<Rightarrow> int" where
  "limit_final intent = max 1 (min (limit intent) 50)"

text \<open>
  \<open>search\<close>. The store is \<open>None\<close> when the file of the database does not exist
  (\<open>get_connection\<close> raises), else the table \<open>products\<close>.
\<close>

definition search ::
    "pylib \<Rightarrow> brand_aliases \<Rightarrow> row list option \<Rightarrow> search_intent \<Rightarrow> error + response" where
  "search L B db intent0 =
     (let intent = intent0\<lparr>query_text := normalize_query (query_text intent0)\<rparr>;
          (sql, params) = build_sql L B intent
      in case db of
           None \<Rightarrow> Inl RuntimeError
         | Some table \<Rightarrow>
             (case select_rows L B table intent of
                Inl e \<Rightarrow> Inl e
              | Inr rows \<Rightarrow>
                  let (items, category_counts) = collect L intent [] [] rows;
                      items = sort_items intent items;
                      items = take (nat (limit_final intent)) items
                  in Inr \<lparr>resp_version = version intent,
                          resp_query_text = query_text intent,
                          category_code_used = category_code intent,
                          resp_uploaded_only = uploaded_only intent,
                          count = length items,
                          category_distribution = category_counts,
                          results = map result_of items,
                          resp_debug =
                            (if debug intent
                             then Some \<lparr>dbg_sql = sql, dbg_params = params,
                                        dbg_aliases_loaded = (B \<noteq> [])\<rparr>
                             else None)\<rparr>))"

subsection \<open>Predicates used in the proofs about the normalizer\<close>

text \<open>
  Whitespace is tidy in a string when every whitespace character of it is one space
  followed by a character that is not whitespace, or by the end.
\<close>

fun tidy :: "ustring \<Rightarrow> bool" where
  "tidy [] = True"
| "tidy (c # cs) =
     ((is_space c \<longrightarrow> c = 0x20 \<and> (case cs of [] \<Rightarrow> True | d # _ \<Rightarrow> \<not> is_space d)) \<and> tidy cs)"


text \<open>The characters that \<open>normalize_persian\<close> replaces or deletes.\<close>

definition banned :: "nat set" where
  "banned = {0x64A, 0x643, 0x200C, 0x640}"

subsection \<open>The value of a digit string\<close>

text \<open>The number that a string of decimal digits denotes in base 10.\<close>

definition digit_of :: "nat \<Rightarrow> nat" where
  "digit_of c = (case decimal_value c of Some d \<Rightarrow> d | None \<Rightarrow> 0)"

definition digits_value :: "ustring \<Rightarrow> nat" where
  "digits_value ds = foldl (\<lambda>v c. 10 * v + digit_of c) 0 ds"

text \<open>
  The price parser as the specification words it: the value is taken as text, the
  characters that are not digits are stripped, the leading run of digits is kept and
  returned as an integer; without digits there is no price.
\<close>

definition spec_parse_price :: "pylib \<Rightarrow> pyval \<Rightarrow> int option" where
  "spec_parse_price L v =
     (let run = takeWhile is_digit (filter is_digit (py_str L v))
      in if run = [] then None else Some (int (digits_value run)))"

subsection \<open>A library for evaluation\<close>

text \<open>
  An instance of the library, to evaluate the definitions at concrete inputs.
  \<open>ascii_lower\<close> is \<open>str.lower()\<close> on strings whose cased letters are ASCII; the ratio is
  the one of \<open>difflib\<close> for equal strings and for strings with no character in common;
  \<open>like_match p s\<close> is SQLite's \<open>s LIKE p\<close> on texts: \<open>%\<close> stands for any characters,
  \<open>_\<close> for one, and the ASCII letters match in either case.
\<close>

definition ascii_fold :: "nat \<Rightarrow> nat" where
  "ascii_fold c = (if 0x41 \<le> c \<and> c \<le> 0x5A then c + 0x20 else c)"

definition ascii_lower :: "ustring \<Rightarrow> ustring" where
  "ascii_lower s = map ascii_fold s"

function like_match :: "ustring \<Rightarrow> ustring \<Rightarrow> bool" where
  "like_match [] s = (s = [])"
| "like_match (p # ps) [] = (p = 0x25 \<and> like_match ps [])"
| "like_match (p # ps) (c # cs) =
     (if p = 0x25 then like_match ps (c # cs) \<or> like_match (p # ps) cs
      else (p = 0x5F \<or> ascii_fold p = ascii_fold c) \<and> like_match ps cs)"
  by pat_completeness auto
termination
  by (relation "measure (\<lambda>(p, s). length p + length s)") auto

fun like_value :: "pyval \<Rightarrow> ustring \<Rightarrow> bool" where
  "like_value (PStr s) p = like_match p s"
| "like_value (PInt n) p = like_match p (str_of_int n)"
| "like_value v p = False"

definition demo_lib :: pylib where
  "demo_lib =
     \<lparr>str_lower = ascii_lower,
      float_str = (\<lambda>x. []),
      int_max_str_digits = 4300,
      seq_ratio = (\<lambda>a b. if a = b then 1 else 0),
      fuzz_weighted = (\<lambda>q n g a t p gr. 0),
      sql_like = like_value\<rparr>"

subsection \<open>Concrete inputs\<close>

text \<open>The intent with the default of every field of \<open>SearchIntent\<close>
  (the version is \<open>"1.0"\<close>).\<close>

definition no_filter :: text_filter where
  "no_filter = \<lparr>tf_include = [], tf_exclude = []\<rparr>"

definition default_intent :: search_intent where
  "default_intent =
     \<lparr>version = [0x31, 0x2E, 0x30],
      category_code = NoCategory,
      uploaded_only = True,
      query_text = [],
      filters =
        \<lparr>f_name = no_filter,
         f_author_or_type_or_age = no_filter,
         f_translator_or_playtime = no_filter,
         f_publisher_or_brand = no_filter,
         f_group_main = no_filter,
         groupfamily_tags = \<lparr>include_all = [], include_any = [], gf_exclude = []\<rparr>,
         f_price = \<lparr>price_min = None, price_max = None\<rparr>,
         f_stock = \<lparr>in_stock_only = None\<rparr>\<rparr>,
      sort_spec = \<lparr>sort_by = Relevance, direction = Desc\<rparr>,
      limit = 10,
      ui = \<lparr>need_clarification = False, clarification_question = None\<rparr>,
      debug = False\<rparr>"

text \<open>A row of the category \<open>"s"\<close> with the given name, quantity, price and groupfamily,
  and no other value.\<close>

definition demo_row :: "pyval \<Rightarrow> pyval \<Rightarrow> pyval \<Rightarrow> pyval \<Rightarrow> row" where
  "demo_row nm q p gf =
     \<lparr>r_name = nm, r_qty = q, r_price = p, r_category_code = PStr [0x73],
      r_author_or_type_or_age = PNone, r_translator_or_playtime = PNone,
      r_publisher_or_brand = PNone, r_group_main = PNone, r_system_code = PNone,
      r_groupfamily = gf\<rparr>"

text \<open>Scenario B of the specification: the category \<open>"s"\<close> and no price over 50000.\<close>

definition capped_intent :: search_intent where
  "capped_intent =
     default_intent
       \<lparr>category_code := OneCategory [0x73],
        filters := (filters default_intent)\<lparr>f_price := \<lparr>price_min = None, price_max = Some 50000\<rparr>\<rparr>\<rparr>"

text \<open>
  Three rows: \<open>row_a\<close> has the price 5 and the quantity 3, \<open>row_b\<close> has neither, and the
  groupfamily of \<open>row_z\<close> is one zero-width non-joiner.
\<close>

definition row_a :: row where
  "row_a = demo_row (PStr [0x61]) (PInt 3) (PInt 5) (PStr [0x67])"

definition row_b :: row where
  "row_b = demo_row (PStr [0x62]) PNone PNone (PStr [0x67])"

definition row_z :: row where
  "row_z = demo_row (PStr [0x7A]) (PInt 1) (PInt 7) (PStr [0x200C])"

text \<open>The category \<open>"s"\<close> with the first pen keyword as the query text.\<close>

definition pen_intent :: search_intent where
  "pen_intent =
     default_intent
       \<lparr>category_code := OneCategory [0x73],
        query_text := [0x62E, 0x648, 0x62F, 0x6A9, 0x627, 0x631]\<rparr>"

text \<open>
  An alias map in which two brands share an alias, as \<open>build_brand_aliases.py\<close> makes
  them for two brands with a word in common: the brands \<open>"x"\<close> and \<open>"y"\<close> with the
  alias \<open>"z"\<close>.
\<close>

definition shared_aliases :: brand_aliases where
  "shared_aliases = [([0x78], [[0x7A]]), ([0x79], [[0x7A]])]"

text \<open>The name of a candidate as the fallback compares it, and its similarity to the
  seed.\<close>

definition pname_of :: "row \<Rightarrow> ustring" where
  "pname_of r = (case candidate_name (r_name r) of Inr p \<Rightarrow> p | Inl e \<Rightarrow> [])"

definition row_similarity :: "pylib \<Rightarrow> ustring \<Rightarrow> row \<Rightarrow> rat" where
  "row_similarity L seed r = similarity L seed (pname_of r)"

text \<open>
  The seed \<open>"abcdefghixyz"\<close> and two names: \<open>"abcdefghiuvws"\<close>, whose ratio to the seed
  is \<open>2 * 9 / 25\<close>, the double \<open>0.72\<close>, and \<open>"abcdefghixyuvwstqrk"\<close>, whose ratio to
  the seed is \<open>2 * 11 / 31\<close>, the double \<open>0.7096\<dots>\<close>; \<open>boundary_lib\<close> is \<open>demo_lib\<close> with
  the ratio of \<open>difflib\<close> for these two pairs.
\<close>

definition seed_name :: ustring where
  "seed_name = [0x61, 0x62, 0x63, 0x64, 0x65, 0x66, 0x67, 0x68, 0x69, 0x78, 0x79, 0x7A]"

definition hit_name :: ustring where
  "hit_name = [0x61, 0x62, 0x63, 0x64, 0x65, 0x66, 0x67, 0x68, 0x69, 0x75, 0x76, 0x77, 0x73]"

definition near_name :: ustring where
  "near_name = 
       [0x61, 0x62, 0x63, 0x64, 0x65, 0x66, 0x67, 0x68, 0x69, 0x78, 0x79, 0x75, 0x76, 0x77, 0x73, 0x74, 0x71, 0x72, 0x6B]"

definition row_hit :: row where
  "row_hit = demo_row (PStr hit_name) PNone PNone (PStr [0x67])"

definition row_near :: row where
  "row_near = demo_row (PStr near_name) PNone PNone (PStr [0x67])"

definition seed_intent :: search_intent where
  "seed_intent =
     default_intent
       \<lparr>filters := (filters default_intent)
          \<lparr>f_name := \<lparr>tf_include = [seed_name], tf_exclude = []\<rparr>\<rparr>\<rparr>"

definition boundary_lib :: pylib where
  "boundary_lib =
     demo_lib
       \<lparr>seq_ratio :=
          (\<lambda>a b. if a = b then 1
                 else if a = seed_name \<and> b = hit_name
                      then 3242591731706757 / 4503599627370496
                 else if a = seed_name \<and> b = near_name
                      then 3196102961359707 / 4503599627370496
                 else 0)\<rparr>"

text \<open>The blocks of \<open>build_sql\<close> that come after the category: the five text filters,
  the groupfamily tags and the query text.\<close>

definition other_sql :: "pylib \<Rightarrow> brand_aliases \<Rightarrow> search_intent \<Rightarrow> compiled" where
  "other_sql L B intent =
     join_sql
       [apply_text_filter L B COL_NAME (f_name (filters intent)),
        apply_text_filter L B COL_AUTHOR (f_author_or_type_or_age (filters intent)),
        apply_text_filter L B COL_TRANSLATOR (f_translator_or_playtime (filters intent)),
        apply_text_filter L B COL_PUBLISHER (f_publisher_or_brand (filters intent)),
        apply_text_filter L B COL_GROUP (f_group_main (filters intent)),
        groupfamily_sql (groupfamily_tags (filters intent)),
        query_text_sql intent]"

section \<open>The normalizer\<close>


lemma strip_strip: "strip (strip s) = strip s"
  unfolding strip_def
  by (metis (no_types, lifting) ext dropWhile_eq_self_iff hd_dropWhile
    last_appendR last_rev rev_is_Nil_conv rev_swap
    takeWhile_dropWhile_id)

lemma replace_char_absent: "a \<notin> set s \<Longrightarrow> replace_char a b s = s"
  by (induction s) (auto simp: replace_char_def)

lemma set_replace_char: "set (replace_char a b s) \<subseteq> (set s - {a}) \<union> set b"
  by (induction s) (auto simp: replace_char_def)

lemma set_collapse_spaces: "set (collapse_spaces s) \<subseteq> insert 0x20 (set s)"
proof (induction s rule: collapse_spaces.induct)
  case 1
  then show ?case by simp
next
  case (2 c cs)
  then show ?case using set_dropWhileD[of _ is_space cs] by auto
qed

lemma set_strip: "set (strip s) \<subseteq> set s"
proof
  fix x assume "x \<in> set (strip s)"
  then have "x \<in> set (dropWhile is_space (rev (dropWhile is_space s)))"
    unfolding strip_def by simp
  then have "x \<in> set (rev (dropWhile is_space s))" by (rule set_dropWhileD)
  then have "x \<in> set (dropWhile is_space s)" by simp
  then show "x \<in> set s" by (rule set_dropWhileD)
qed

lemma tidy_collapse_spaces: "tidy (collapse_spaces s)"
proof (induction s rule: collapse_spaces.induct)
  case 1
  then show ?case by simp
next
  case (2 c cs)
  show ?case
  proof (cases "is_space c")
    case True
    have "case collapse_spaces (dropWhile is_space cs) of [] \<Rightarrow> True | d # _ \<Rightarrow> \<not> is_space d"
    proof (cases "dropWhile is_space cs")
      case Nil
      show ?thesis unfolding Nil by simp
    next
      case (Cons d ds)
      then have "\<not> is_space d" using hd_dropWhile[of is_space cs] by auto
      with Cons show ?thesis by simp
    qed
    with True 2 show ?thesis by simp
  next
    case False
    with 2 show ?thesis by simp
  qed
qed

lemma collapse_spaces_tidy: "tidy s \<Longrightarrow> collapse_spaces s = s"
proof (induction s rule: collapse_spaces.induct)
  case 1
  then show ?case by simp
next
  case (2 c cs)
  show ?case
  proof (cases "is_space c")
    case True
    with 2 have "dropWhile is_space cs = cs" by (cases cs) auto
    with True 2 show ?thesis by simp
  next
    case False
    with 2 show ?thesis by simp
  qed
qed

lemma tidy_dropWhile: "tidy s \<Longrightarrow> tidy (dropWhile P s)"
  by (induction s) auto

lemma tidy_append_left: "tidy (xs @ ys) \<Longrightarrow> tidy xs"
proof (induction xs)
  case Nil
  show ?case by simp
next
  case (Cons x xs)
  then have "tidy xs" by simp
  moreover have "is_space x \<longrightarrow> x = 0x20 \<and> (case xs of [] \<Rightarrow> True | d # _ \<Rightarrow> \<not> is_space d)"
    using Cons.prems by (cases xs) simp_all
  ultimately show ?case by simp
qed

lemma tidy_strip: "tidy s \<Longrightarrow> tidy (strip s)"
proof -
  assume t: "tidy s"
  let ?u = "dropWhile is_space s"
  have "?u = rev (dropWhile is_space (rev ?u)) @ rev (takeWhile is_space (rev ?u))"
    by (metis rev_append rev_rev_ident takeWhile_dropWhile_id)
  moreover have "tidy ?u" using t by (rule tidy_dropWhile)
  ultimately show ?thesis unfolding strip_def using tidy_append_left by metis
qed


lemma normalize_persian_banned: "set (normalize_persian s) \<inter> banned = {}"
proof -
  let ?a = "replace_char 0x64A [0x6CC] s"
  let ?b = "replace_char 0x643 [0x6A9] ?a"
  let ?c = "replace_char 0x200C [0x20] ?b"
  let ?d = "replace_char 0x640 [] ?c"
  have a: "0x64A \<notin> set ?a" using set_replace_char[of "0x64A" "[0x6CC]" s] by auto
  have b: "0x64A \<notin> set ?b" "0x643 \<notin> set ?b"
    using a set_replace_char[of "0x643" "[0x6A9]" ?a] by auto
  have c: "0x64A \<notin> set ?c" "0x643 \<notin> set ?c" "0x200C \<notin> set ?c"
    using b set_replace_char[of "0x200C" "[0x20]" ?b] by auto
  have d: "0x64A \<notin> set ?d" "0x643 \<notin> set ?d" "0x200C \<notin> set ?d" "0x640 \<notin> set ?d"
    using c set_replace_char[of "0x640" "[]" ?c] by auto
  have "set (normalize_persian s) \<subseteq> insert 0x20 (set ?d)"
    unfolding normalize_persian_def using set_strip set_collapse_spaces by blast
  moreover have "(0x20::nat) \<notin> banned" unfolding banned_def by simp
  moreover have "set ?d \<inter> banned = {}" using d unfolding banned_def by simp
  ultimately show ?thesis by blast
qed

lemma normalize_persian_fixed:
  assumes "set s \<inter> banned = {}" "tidy s" "strip s = s"
  shows "normalize_persian s = s"
proof -
  from assms(1) have "0x64A \<notin> set s" "0x643 \<notin> set s" "0x200C \<notin> set s" "0x640 \<notin> set s"
    unfolding banned_def by auto
  then show ?thesis
    unfolding normalize_persian_def
    by (simp add: replace_char_absent collapse_spaces_tidy assms)
qed

lemma normalize_persian_idem: "normalize_persian (normalize_persian s) = normalize_persian s"
proof (rule normalize_persian_fixed)
  show "set (normalize_persian s) \<inter> banned = {}" by (rule normalize_persian_banned)
  show "tidy (normalize_persian s)"
    unfolding normalize_persian_def by (intro tidy_strip tidy_collapse_spaces)
  show "strip (normalize_persian s) = normalize_persian s"
    unfolding normalize_persian_def by (rule strip_strip)
qed


section \<open>The price parser\<close>

lemma decimal_in_range:
  "decimal_in rs c = Some d \<Longrightarrow> \<exists>(a, n) \<in> set rs. a \<le> c \<and> c < a + n"
  by (induction rs) (auto split: if_splits)

lemma is_digit_coarse:
  assumes "is_digit c"
  shows "(0x30 \<le> c \<and> c \<le> 0x39) \<or> (0x660 \<le> c \<and> c \<le> 0x1099)
         \<or> (0x17E0 \<le> c \<and> c \<le> 0x1C59) \<or> 0xA620 \<le> c"
proof -
  from assms obtain d where "decimal_in decimal_ranges c = Some d"
    unfolding is_digit_def decimal_value_def by auto
  from decimal_in_range[OF this] show ?thesis
    unfolding decimal_ranges_def by (simp only: list.set) auto
qed

lemma space_not_digit: "is_space c \<Longrightarrow> \<not> is_digit c"
  using is_digit_coarse[of c] unfolding is_space_def by auto

lemma not_digit_chars:
  "\<not> is_digit 0x20" "\<not> is_digit 0x2C" "\<not> is_digit 0x66C" "\<not> is_digit 0x5F"
  "\<not> is_digit 0x2B" "\<not> is_digit 0x2D"
  by (simp_all add: is_digit_def decimal_value_def decimal_ranges_def)

lemma filter_dropWhile_disjoint:
  "(\<And>x. Q x \<Longrightarrow> \<not> P x) \<Longrightarrow> filter P (dropWhile Q s) = filter P s"
  by (induction s) auto

lemma filter_digit_strip: "filter is_digit (strip s) = filter is_digit s"
proof -
  have "filter is_digit (strip s) = rev (filter is_digit (dropWhile is_space (rev (dropWhile is_space s))))"
    unfolding strip_def by (simp add: rev_filter)
  also have "\<dots> = rev (filter is_digit (rev (dropWhile is_space s)))"
    by (simp add: filter_dropWhile_disjoint space_not_digit)
  also have "\<dots> = filter is_digit (dropWhile is_space s)"
    by (simp add: rev_filter)
  also have "\<dots> = filter is_digit s"
    by (simp add: filter_dropWhile_disjoint space_not_digit)
  finally show ?thesis .
qed

lemma filter_replace_char_deleted:
  "\<not> P a \<Longrightarrow> filter P (replace_char a [] s) = filter P s"
  by (induction s) (auto simp: replace_char_def)

lemma filter_digit_cleaned:
  "filter is_digit
     (strip (replace_char 0x20 [] (replace_char 0x66C [] (replace_char 0x2C [] v))))
   = filter is_digit v"
  by (simp add: filter_digit_strip filter_replace_char_deleted not_digit_chars)

lemma int_body_digits:
  "\<forall>c \<in> set ds. is_digit c \<Longrightarrow>
   int_body u v k ds =
     (if ds = [] then (if u then None else Some (v, k))
      else Some (foldl (\<lambda>v c. 10 * v + digit_of c) v ds, k + length ds))"
proof (induction ds arbitrary: u v k)
  case Nil
  then show ?case by simp
next
  case (Cons c ds)
  from Cons.prems have d: "is_digit c" and rest: "\<forall>c \<in> set ds. is_digit c" by simp_all
  from d have ne: "c \<noteq> 0x5F" using not_digit_chars(4) by auto
  from d obtain x where x: "decimal_value c = Some x" unfolding is_digit_def by auto
  then have dx: "digit_of c = x" unfolding digit_of_def by simp
  show ?case using Cons.IH[OF rest, of False "10 * v + x" "Suc k"] ne x dx by simp
qed

lemma int_strip_digits:
  assumes "\<forall>c \<in> set ds. is_digit c"
  shows "rev (dropWhile int_space (rev (dropWhile int_space ds))) = ds"
proof -
  have ns: "\<And>c. c \<in> set ds \<Longrightarrow> \<not> int_space c"
    using assms space_not_digit unfolding int_space_def by blast
  have a: "dropWhile int_space ds = ds"
    using ns by (cases ds) auto
  have "dropWhile int_space (rev ds) = rev ds"
    using ns by (cases "rev ds") (auto simp: Cons_eq_append_conv rev_eq_Cons_iff)
  with a show ?thesis by simp
qed

lemma py_int_str_digits:
  assumes "\<forall>c \<in> set ds. is_digit c" "ds \<noteq> []"
  shows "py_int_str L ds =
     (if 640 < length ds \<and> 0 < int_max_str_digits L \<and> int_max_str_digits L < length ds
      then None else Some (int (digits_value ds)))"
proof -
  from assms obtain c r where cr: "ds = c # r" by (cases ds) auto
  with assms have "is_digit c" by simp
  then have sgn: "c \<noteq> 0x2B" "c \<noteq> 0x2D" using not_digit_chars by auto
  show ?thesis
    unfolding py_int_str_def int_strip_digits[OF assms(1)] Let_def digits_value_def
    using sgn int_body_digits[OF assms(1), of True 0 0] assms(2)
    by (simp add: cr)
qed

lemma parse_price_text:
  "parse_price L (PStr v) =
     (let ds = filter is_digit v
      in if ds = [] then None
         else if 640 < length ds \<and> 0 < int_max_str_digits L \<and> int_max_str_digits L < length ds
              then None
              else Some (int (digits_value ds)))"
proof (cases "filter is_digit v = []")
  case True
  then show ?thesis by (simp add: filter_digit_cleaned Let_def)
next
  case False
  have "\<forall>c \<in> set (filter is_digit v). is_digit c" by simp
  from py_int_str_digits[OF this False, of L] False show ?thesis
    by (simp add: filter_digit_cleaned Let_def)
qed

lemma toman_digits:
  "filter is_digit [0x31, 0x32, 0x2C, 0x35, 0x30, 0x30, 0x20, 0x62A, 0x648, 0x645, 0x627, 0x646]
     = [0x31, 0x32, 0x35, 0x30, 0x30]"
  by (simp add: is_digit_def decimal_value_def decimal_ranges_def)

lemma toman_value: "digits_value [0x31, 0x32, 0x35, 0x30, 0x30] = 12500"
  by (simp add: digits_value_def digit_of_def decimal_value_def decimal_ranges_def)

lemma parse_price_toman:
  "parse_price L
     (PStr [0x31, 0x32, 0x2C, 0x35, 0x30, 0x30, 0x20, 0x62A, 0x648, 0x645, 0x627, 0x646])
     = Some 12500"
  using parse_price_text[of L
      "[0x31, 0x32, 0x2C, 0x35, 0x30, 0x30, 0x20, 0x62A, 0x648, 0x645, 0x627, 0x646]"]
  by (simp only: toman_digits toman_value Let_def) simp

section \<open>The pipeline\<close>

lemma collect_eq:
  "collect L intent items cc rows =
     (items @ map (\<lambda>d. d\<lparr>score := compute_relevance_score L intent d\<rparr>)
               (filter (passes_price_filter L intent) (map (make_item L) rows)),
      foldl count_category cc
        (map item_category_code (filter (passes_price_filter L intent) (map (make_item L) rows))))"
  by (induction rows arbitrary: items cc) (simp_all add: Let_def)

lemma length_py_sort: "length (py_sort key reverse xs) = length xs"
  by (simp add: py_sort_def)

lemma set_py_sort: "set (py_sort key reverse xs) = set xs"
  by (simp add: py_sort_def)

lemma length_sort_items: "length (sort_items intent items) = length items"
  by (simp add: sort_items_def Let_def length_py_sort split: sort_by.split)

lemma set_sort_items: "set (sort_items intent items) = set items"
  by (simp add: sort_items_def Let_def set_py_sort split: sort_by.split)


lemma search_Some:
  "search L B (Some table) intent0 =
     (let intent = intent0\<lparr>query_text := normalize_query (query_text intent0)\<rparr>
      in case select_rows L B table intent of
           Inl e \<Rightarrow> Inl e
         | Inr rows \<Rightarrow>
             let items = take (nat (limit_final intent))
                   (sort_items intent
                     (map (\<lambda>d. d\<lparr>score := compute_relevance_score L intent d\<rparr>)
                        (filter (passes_price_filter L intent) (map (make_item L) rows))))
             in Inr \<lparr>resp_version = version intent,
                     resp_query_text = query_text intent,
                     category_code_used = category_code intent,
                     resp_uploaded_only = uploaded_only intent,
                     count = length items,
                     category_distribution =
                       foldl count_category []
                         (map item_category_code
                            (filter (passes_price_filter L intent) (map (make_item L) rows))),
                     results = map result_of items,
                     resp_debug =
                       (if debug intent
                        then Some \<lparr>dbg_sql = fst (build_sql L B intent),
                                   dbg_params = snd (build_sql L B intent),
                                   dbg_aliases_loaded = (B \<noteq> [])\<rparr>
                        else None)\<rparr>)"
  by (simp add: search_def Let_def collect_eq split_beta split: sum.split)

section \<open>Evaluation on the concrete rows\<close>

lemma plain_build_sql:
  assumes "category_code i = NoCategory" "query_text i = []" "filters i = filters default_intent"
    "uploaded_only i"
  shows "build_sql L B i =
    (\<lparr>sql_where = [IsNotNull COL_GROUPFAMILY, TrimNotEmpty COL_GROUPFAMILY], sql_limit = 1200\<rparr>,
     [])"
  using assms
  by (simp add: build_sql_def join_sql_def uploaded_sql_def category_sql_def apply_text_filter_def
      groupfamily_sql_def query_text_sql_def normalize_query_def default_intent_def no_filter_def)

lemma uploaded_where:
  "where_holds L r [IsNotNull COL_GROUPFAMILY, TrimNotEmpty COL_GROUPFAMILY] ps
     = (r_groupfamily r \<noteq> PNone \<and> trim_not_empty (r_groupfamily r))"
  by simp

lemma plain_select:
  assumes "category_code i = NoCategory" "query_text i = []" "filters i = filters default_intent"
    "uploaded_only i"
    "\<forall>r \<in> set t. r_groupfamily r \<noteq> PNone \<and> trim_not_empty (r_groupfamily r)"
    "t \<noteq> []" "length t \<le> 1200"
  shows "select_rows L B t i = Inr t"
proof -
  have "filter (\<lambda>r. r_groupfamily r \<noteq> PNone \<and> trim_not_empty (r_groupfamily r)) t = t"
    using assms(5) by (simp add: filter_id_conv)
  then show ?thesis
    using assms(6,7)
    by (simp add: select_rows_def plain_build_sql[OF assms(1-4)] execute_def uploaded_where)
qed

lemma plain_search:
  assumes "category_code i = NoCategory" "query_text i = []" "filters i = filters default_intent"
    "uploaded_only i"
    "\<forall>r \<in> set t. r_groupfamily r \<noteq> PNone \<and> trim_not_empty (r_groupfamily r)"
    "t \<noteq> []" "length t \<le> 1200"
  shows "map_sum id (\<lambda>resp. f (results resp)) (search L B (Some t) i) =
    Inr (f (map result_of (take (nat (limit_final i))
              (sort_items i (map (\<lambda>d. d\<lparr>score := 0\<rparr>) (map (make_item L) t))))))"
proof -
  have q: "i\<lparr>query_text := normalize_query (query_text i)\<rparr> = i"
    using assms(2) by (simp add: normalize_query_def)
  have p: "\<And>d. passes_price_filter L i d"
    using assms(3) by (simp add: passes_price_filter_def default_intent_def)
  have c: "\<And>d. compute_relevance_score L i d = 0"
    using assms(2) by (simp add: compute_relevance_score_def normalize_query_def)
  show ?thesis
    unfolding search_Some Let_def q plain_select[OF assms] by (simp add: p c)
qed

lemma demo_rows_uploaded:
  "r_groupfamily row_a \<noteq> PNone \<and> trim_not_empty (r_groupfamily row_a)"
  "r_groupfamily row_b \<noteq> PNone \<and> trim_not_empty (r_groupfamily row_b)"
  "r_groupfamily row_z \<noteq> PNone \<and> trim_not_empty (r_groupfamily row_z)"
  by (simp_all add: row_a_def row_b_def row_z_def demo_row_def sql_trim_def)

lemma demo_price_values:
  "price_value (make_item L row_a) = Some 5" "price_value (make_item L row_b) = None"
  "qty_value (make_item L row_a) = Some 3" "qty_value (make_item L row_b) = None"
  by (simp_all add: make_item_def row_a_def row_b_def demo_row_def)

lemma demo_groupfamily: "groupfamily (make_item L row_z) = []"
  by (simp add: make_item_def row_z_def demo_row_def normalize_persian_def replace_char_def
      strip_def is_space_def)

lemma plain_intents:
  "category_code (default_intent\<lparr>sort_spec := sp\<rparr>) = NoCategory"
  "query_text (default_intent\<lparr>sort_spec := sp\<rparr>) = []"
  "filters (default_intent\<lparr>sort_spec := sp\<rparr>) = filters default_intent"
  "uploaded_only (default_intent\<lparr>sort_spec := sp\<rparr>)"
  "category_code (default_intent\<lparr>limit := n\<rparr>) = NoCategory"
  "query_text (default_intent\<lparr>limit := n\<rparr>) = []"
  "filters (default_intent\<lparr>limit := n\<rparr>) = filters default_intent"
  "uploaded_only (default_intent\<lparr>limit := n\<rparr>)"
  "category_code default_intent = NoCategory"
  "query_text default_intent = []"
  "uploaded_only default_intent"
  by (simp_all add: default_intent_def)

lemma sorted_by_price_desc:
  "sort_items (default_intent\<lparr>sort_spec := \<lparr>sort_by = Price, direction = Desc\<rparr>\<rparr>)
     [(make_item L row_a)\<lparr>score := 0\<rparr>, (make_item L row_b)\<lparr>score := 0\<rparr>]
   = [(make_item L row_b)\<lparr>score := 0\<rparr>, (make_item L row_a)\<lparr>score := 0\<rparr>]"
  by (simp add: sort_items_def py_sort_def demo_price_values default_intent_def)

lemma sorted_by_qty_desc:
  "sort_items (default_intent\<lparr>sort_spec := \<lparr>sort_by = Qty, direction = Desc\<rparr>\<rparr>)
     [(make_item L row_a)\<lparr>score := 0\<rparr>, (make_item L row_b)\<lparr>score := 0\<rparr>]
   = [(make_item L row_b)\<lparr>score := 0\<rparr>, (make_item L row_a)\<lparr>score := 0\<rparr>]"
  by (simp add: sort_items_def py_sort_def demo_price_values default_intent_def)

lemma sorted_by_price_asc:
  "sort_items (default_intent\<lparr>sort_spec := \<lparr>sort_by = Price, direction = Asc\<rparr>\<rparr>)
     [(make_item L row_b)\<lparr>score := 0\<rparr>, (make_item L row_a)\<lparr>score := 0\<rparr>]
   = [(make_item L row_a)\<lparr>score := 0\<rparr>, (make_item L row_b)\<lparr>score := 0\<rparr>]"
  by (simp add: sort_items_def py_sort_def demo_price_values default_intent_def)

lemma default_limit: "nat (limit_final (default_intent\<lparr>sort_spec := sp\<rparr>)) = 10"
  "nat (limit_final default_intent) = 10"
  by (simp_all add: limit_final_def default_intent_def)

lemma sort_items_single: "sort_items i [x] = [x]"
  by (simp add: sort_items_def py_sort_def Let_def split: sort_by.split)

section \<open>The rows of an uploaded-only search\<close>

lemma uploaded_conditions:
  "where_holds L r (IsNotNull c # TrimNotEmpty c # ws) ps \<Longrightarrow>
   column_value r c \<noteq> PNone \<and> trim_not_empty (column_value r c)"
  by simp

lemma build_sql_uploaded:
  "uploaded_only i \<Longrightarrow>
   \<exists>ws. sql_where (fst (build_sql L B i))
          = IsNotNull COL_GROUPFAMILY # TrimNotEmpty COL_GROUPFAMILY # ws"
  by (simp add: build_sql_def join_sql_def uploaded_sql_def split_beta)

lemma fallback_sql_uploaded:
  "uploaded_only i \<Longrightarrow>
   \<exists>ws. sql_where (fst (fallback_sql L i))
          = IsNotNull COL_GROUPFAMILY # TrimNotEmpty COL_GROUPFAMILY # ws"
  by (simp add: fallback_sql_def join_sql_def split_beta)

lemma execute_member:
  "r \<in> set (execute L t q ps) \<Longrightarrow> r \<in> set t \<and> where_holds L r (sql_where q) ps"
  unfolding execute_def using set_take_subset[of "sql_limit q"] by fastforce

lemma execute_uploaded:
  assumes "r \<in> set (execute L t q ps)"
    and "sql_where q = IsNotNull COL_GROUPFAMILY # TrimNotEmpty COL_GROUPFAMILY # ws"
  shows "r \<in> set t \<and> r_groupfamily r \<noteq> PNone \<and> trim_not_empty (r_groupfamily r)"
  using execute_member[OF assms(1)] uploaded_conditions[of L r COL_GROUPFAMILY ws ps]
  unfolding assms(2) by simp

lemma fuzzy_scan_member:
  "fuzzy_scan L seed cs = Inr ms \<Longrightarrow> (s, r) \<in> set ms \<Longrightarrow> r \<in> set cs"
proof (induction cs arbitrary: ms)
  case Nil
  then show ?case by simp
next
  case (Cons c cs)
  from Cons.prems(1) obtain ms' where ms': "fuzzy_scan L seed cs = Inr ms'"
    by (auto split: sum.splits)
  with Cons.prems(1) have "set ms \<subseteq> set ms' \<union> {x. snd x = c}"
    by (auto simp: Let_def split: sum.splits if_splits)
  with Cons.prems(2) Cons.IH[OF ms'] show ?case by auto
qed

lemma fuzzy_scan_subset: "fuzzy_scan L seed cs = Inr ms \<Longrightarrow> snd ` set ms \<subseteq> set cs"
  using fuzzy_scan_member by fastforce

lemma fuzzy_fallback_subset:
  assumes "fuzzy_fallback L t i = Inr rows"
  shows "set rows \<subseteq> set (execute L t (fst (fallback_sql L i)) (snd (fallback_sql L i)))"
proof -
  from assms obtain ms where
    ms: "fuzzy_scan L (name_seed i)
           (execute L t (fst (fallback_sql L i)) (snd (fallback_sql L i))) = Inr ms"
    and rows: "rows = map snd (take 1200 (py_sort fst True ms))"
    by (auto simp: fuzzy_fallback_def split_beta Let_def split: sum.splits)
  have "set rows \<subseteq> snd ` set (py_sort fst True ms)"
    unfolding rows using set_take_subset[of 1200 "py_sort fst True ms"] by auto
  with fuzzy_scan_subset[OF ms] show ?thesis by (simp add: set_py_sort)
qed

lemma select_rows_uploaded:
  assumes "uploaded_only i" "select_rows L B t i = Inr rows" "r \<in> set rows"
  shows "r \<in> set t \<and> r_groupfamily r \<noteq> PNone \<and> trim_not_empty (r_groupfamily r)"
proof (cases "execute L t (fst (build_sql L B i)) (snd (build_sql L B i)) = []
              \<and> name_seed i \<noteq> []")
  case True
  with assms(2) have "fuzzy_fallback L t i = Inr rows"
    by (simp add: select_rows_def split_beta Let_def)
  from fuzzy_fallback_subset[OF this] assms(3)
  have "r \<in> set (execute L t (fst (fallback_sql L i)) (snd (fallback_sql L i)))" by auto
  with fallback_sql_uploaded[OF assms(1), of L] show ?thesis
    using execute_uploaded by blast
next
  case False
  with assms(2) have "rows = execute L t (fst (build_sql L B i)) (snd (build_sql L B i))"
    by (auto simp: select_rows_def split_beta Let_def)
  with assms(3) build_sql_uploaded[OF assms(1), of L B] show ?thesis
    using execute_uploaded by blast
qed

section \<open>The compiler\<close>

lemma starts_with_iff: "starts_with k q \<longleftrightarrow> (\<exists>v. q = k @ v)"
  by (induction k q rule: starts_with.induct) auto

lemma contains_iff: "contains k q \<longleftrightarrow> (\<exists>u v. q = u @ k @ v)"
proof (induction q)
  case Nil
  then show ?case by auto
next
  case (Cons c q)
  show ?case
  proof
    assume "contains k (c # q)"
    then consider "starts_with k (c # q)" | "contains k q" by auto
    then show "\<exists>u v. c # q = u @ k @ v"
    proof cases
      case 1
      then obtain v where "c # q = k @ v" unfolding starts_with_iff by blast
      then have "c # q = [] @ k @ v" by simp
      then show ?thesis by blast
    next
      case 2
      with Cons.IH obtain u v where "q = u @ k @ v" by blast
      then have "c # q = (c # u) @ k @ v" by simp
      then show ?thesis by blast
    qed
  next
    assume "\<exists>u v. c # q = u @ k @ v"
    then obtain u v where uv: "c # q = u @ k @ v" by blast
    show "contains k (c # q)"
    proof (cases u)
      case Nil
      with uv have "starts_with k (c # q)" unfolding starts_with_iff by auto
      then show ?thesis by simp
    next
      case (Cons d u')
      with uv have "q = u' @ k @ v" by simp
      with Cons.IH have "contains k q" by blast
      then show ?thesis by simp
    qed
  qed
qed

lemma expand_first_match:
  assumes "\<forall>(k', A') \<in> set pre. \<forall>x \<in> set (k' # A').
             str_lower L (normalize_persian x) \<noteq> str_lower L (normalize_persian t)"
    and "\<exists>x \<in> set (k # A). str_lower L (normalize_persian x) = str_lower L (normalize_persian t)"
  shows "expand_brand_terms L (pre @ (k, A) # post) t = k # A"
  using assms
proof (induction pre)
  case Nil
  then show ?case by (auto simp: Let_def image_iff)
next
  case (Cons e pre)
  obtain k' A' where e: "e = (k', A')" by (cases e)
  from Cons.prems(1) have
    "str_lower L (normalize_persian t) \<notin>
       set (map (\<lambda>x. str_lower L (normalize_persian x)) (k' # A'))"
    unfolding e by auto
  moreover from Cons have "expand_brand_terms L (pre @ (k, A) # post) t = k # A" by simp
  ultimately show ?case unfolding e by (simp add: Let_def)
qed

lemma expand_no_match:
  assumes "\<forall>(k', A') \<in> set B. \<forall>x \<in> set (k' # A').
             str_lower L (normalize_persian x) \<noteq> str_lower L (normalize_persian t)"
  shows "expand_brand_terms L B t = [t]"
  using assms
proof (induction B)
  case Nil
  then show ?case by simp
next
  case (Cons e B)
  obtain k' A' where e: "e = (k', A')" by (cases e)
  from Cons.prems have
    "str_lower L (normalize_persian t) \<notin>
       set (map (\<lambda>x. str_lower L (normalize_persian x)) (k' # A'))"
    unfolding e by auto
  moreover from Cons have "expand_brand_terms L B t = [t]" by simp
  ultimately show ?case unfolding e by (simp add: Let_def)
qed

lemma include_sql_publisher:
  assumes "B \<noteq> []" "normalize_persian t \<noteq> []"
  shows "include_sql L B COL_PUBLISHER t =
     ([AnyLike (map (\<lambda>_. COL_PUBLISHER) (expand_brand_terms L B (normalize_persian t)))],
      map (\<lambda>term. like_pattern (normalize_persian term))
        (expand_brand_terms L B (normalize_persian t)))"
  using assms by (simp add: include_sql_def Let_def)

lemma where_holds_append:
  "length ps1 = sum_list (map placeholders ws1) \<Longrightarrow>
   where_holds L r (ws1 @ ws2) (ps1 @ ps2)
     = (where_holds L r ws1 ps1 \<and> where_holds L r ws2 ps2)"
proof (induction ws1 arbitrary: ps1)
  case Nil
  then show ?case by simp
next
  case (Cons c ws1)
  from Cons.prems have le: "placeholders c \<le> length ps1" by simp
  from Cons.prems have
    "length (drop (placeholders c) ps1) = sum_list (map placeholders ws1)" by simp
  from Cons.IH[OF this] le show ?case by simp
qed

lemma build_sql_blocks:
  "build_sql L B i =
     (\<lparr>sql_where = fst (uploaded_sql i) @ fst (category_sql L i) @ fst (other_sql L B i),
       sql_limit = 1200\<rparr>,
      snd (category_sql L i) @ snd (other_sql L B i))"
  by (simp add: build_sql_def other_sql_def join_sql_def uploaded_sql_def)

lemma uploaded_sql_placeholders: "sum_list (map placeholders (fst (uploaded_sql i))) = 0"
  by (simp add: uploaded_sql_def)

lemma where_holds_blocks:
  assumes "length cp = sum_list (map placeholders cw)"
  shows "where_holds L r (fst (uploaded_sql i) @ cw @ ow) (cp @ op)
     = (where_holds L r (fst (uploaded_sql i)) [] \<and> where_holds L r cw cp
        \<and> where_holds L r ow op)"
proof -
  have "where_holds L r (fst (uploaded_sql i) @ cw @ ow) ([] @ cp @ op)
     = (where_holds L r (fst (uploaded_sql i)) [] \<and> where_holds L r (cw @ ow) (cp @ op))"
    by (rule where_holds_append) (simp add: uploaded_sql_placeholders)
  also have "where_holds L r (cw @ ow) (cp @ op)
     = (where_holds L r cw cp \<and> where_holds L r ow op)"
    by (rule where_holds_append) (rule assms)
  finally show ?thesis by simp
qed

section \<open>The fuzzy fallback\<close>

lemma normalize_persian_Nil: "normalize_persian [] = []"
  by (simp add: normalize_persian_def replace_char_def strip_def)

lemma normalize_query_fixed: "normalize_persian (normalize_query x) = normalize_query x"
  by (simp add: normalize_query_def normalize_persian_Nil normalize_persian_idem)

lemma name_seed_prepared:
  "name_seed (i\<lparr>query_text := normalize_query (query_text i)\<rparr>) =
     (case tf_include (f_name (filters i)) of
        t # _ \<Rightarrow> normalize_query t
      | [] \<Rightarrow> normalize_query (query_text i))"
  by (simp add: name_seed_def split: list.split)

lemma name_seed_normal:
  "normalize_persian (name_seed (i\<lparr>query_text := normalize_query (query_text i)\<rparr>))
     = name_seed (i\<lparr>query_text := normalize_query (query_text i)\<rparr>)"
  unfolding name_seed_prepared by (simp add: normalize_query_fixed split: list.split)

lemma fuzzy_scan_eq:
  "fuzzy_scan L seed cs = Inr ms \<Longrightarrow>
   ms = map (\<lambda>r. (row_similarity L seed r, r))
          (filter (\<lambda>r. pname_of r \<noteq> [] \<and> cutoff \<le> row_similarity L seed r) cs)"
proof (induction cs arbitrary: ms)
  case Nil
  then show ?case by simp
next
  case (Cons c cs)
  from Cons.prems obtain p ms' where p: "candidate_name (r_name c) = Inr p"
    and ms': "fuzzy_scan L seed cs = Inr ms'"
    by (auto split: sum.splits)
  have pn: "pname_of c = p" by (simp add: pname_of_def p)
  have sim: "row_similarity L seed c = similarity L seed p"
    by (simp add: row_similarity_def pn)
  from Cons.prems have
    "ms = (if p \<noteq> [] \<and> cutoff \<le> similarity L seed p
           then (similarity L seed p, c) # ms' else ms')"
    by (auto simp: p ms' Let_def split: if_splits)
  with Cons.IH[OF ms'] show ?case by (simp add: pn sim)
qed

lemma low_on_empty_name:
  assumes "\<forall>a. a \<noteq> [] \<longrightarrow> seq_ratio L a [] < cutoff"
    and "normalize_persian seed = seed" and "seed \<noteq> []" and "pname_of r = []"
  shows "\<not> cutoff \<le> row_similarity L seed r"
  using assms by (simp add: row_similarity_def similarity_def normalize_persian_Nil not_le)

lemma insort_key_tag:
  "insort_key fst (f a, a) (map (\<lambda>x. (f x, x)) ys) = map (\<lambda>x. (f x, x)) (insort_key f a ys)"
  by (induction ys) simp_all

lemma sort_key_tag:
  "sort_key fst (map (\<lambda>x. (f x, x)) xs) = map (\<lambda>x. (f x, x)) (sort_key f xs)"
  by (induction xs) (simp_all add: insort_key_tag)

lemma py_sort_tag: "map snd (py_sort fst True (map (\<lambda>x. (f x, x)) xs)) = py_sort f True xs"
proof -
  have "py_sort fst True (map (\<lambda>x. (f x, x)) xs)
      = rev (sort_key fst (map (\<lambda>x. (f x, x)) (rev xs)))"
    by (simp add: py_sort_def rev_map)
  also have "\<dots> = map (\<lambda>x. (f x, x)) (rev (sort_key f (rev xs)))"
    by (simp add: sort_key_tag rev_map)
  finally show ?thesis by (simp add: py_sort_def comp_def)
qed

lemma py_sort_descending: "sorted_wrt (\<lambda>x y. y \<le> x) (map f (py_sort f True xs))"
proof -
  have "sorted (map f (sort_key f (rev xs)))" by (rule sorted_sort_key)
  then have "sorted_wrt (\<lambda>x y. y \<le> x) (rev (map f (sort_key f (rev xs))))"
    by (simp add: sorted_wrt_rev)
  then show ?thesis by (simp add: py_sort_def rev_map)
qed

lemma fuzzy_fallback_eq:
  assumes "\<forall>a. a \<noteq> [] \<longrightarrow> seq_ratio L a [] < cutoff"
    and "normalize_persian (name_seed i) = name_seed i" and "name_seed i \<noteq> []"
    and "fuzzy_fallback L table i = Inr rows"
  shows "rows = take 1200 (py_sort (row_similarity L (name_seed i)) True
           (filter (\<lambda>r. cutoff \<le> row_similarity L (name_seed i) r)
              (execute L table (fst (fallback_sql L i)) (snd (fallback_sql L i)))))"
proof -
  let ?cs = "execute L table (fst (fallback_sql L i)) (snd (fallback_sql L i))"
  let ?sim = "row_similarity L (name_seed i)"
  from assms(4) obtain ms where ms: "fuzzy_scan L (name_seed i) ?cs = Inr ms"
    and rows: "rows = map snd (take 1200 (py_sort fst True ms))"
    by (auto simp: fuzzy_fallback_def split_beta Let_def split: sum.splits)
  have "(\<lambda>r. pname_of r \<noteq> [] \<and> cutoff \<le> ?sim r) = (\<lambda>r. cutoff \<le> ?sim r)"
    using low_on_empty_name[OF assms(1-3)] by blast
  with fuzzy_scan_eq[OF ms] have "ms = map (\<lambda>r. (?sim r, r)) (filter (\<lambda>r. cutoff \<le> ?sim r) ?cs)"
    by simp
  then show ?thesis unfolding rows by (simp add: take_map[symmetric] py_sort_tag)
qed

text \<open>
  Claim C9. The text normalizer is idempotent: for every string \<open>s\<close>, normalizing the
  normalized string gives the normalized string again.
\<close>

theorem normalize_persian_idempotent:
  "normalize_persian (normalize_persian s) = normalize_persian s"
proof (rule normalize_persian_fixed)
  show "set (normalize_persian s) \<inter> banned = {}"
    by (rule normalize_persian_banned)
  show "tidy (normalize_persian s)"
    unfolding normalize_persian_def by (intro tidy_strip tidy_collapse_spaces)
  show "strip (normalize_persian s) = normalize_persian s"
    unfolding normalize_persian_def by (rule strip_strip)
qed

text \<open>At the input \<open>" \<langle>yeh\<rangle>\<langle>zwnj\<rangle>\<langle>zwnj\<rangle>\<langle>tatweel\<rangle>A\t\nB\<langle>zwnj\<rangle>"\<close>, which normalizes to
  the Persian yeh followed by \<open>" A B"\<close>.\<close>

theorem normalize_persian_idempotent_witness:
  "normalize_persian [0x20, 0x64A, 0x200C, 0x200C, 0x640, 0x41, 0x09, 0x0A, 0x42, 0x200C]
     = [0x6CC, 0x20, 0x41, 0x20, 0x42] \<and>
   normalize_persian
     (normalize_persian [0x20, 0x64A, 0x200C, 0x200C, 0x640, 0x41, 0x09, 0x0A, 0x42, 0x200C])
     = [0x6CC, 0x20, 0x41, 0x20, 0x42]"
proof -
  have e: "normalize_persian [0x20, 0x64A, 0x200C, 0x200C, 0x640, 0x41, 0x09, 0x0A, 0x42, 0x200C]
     = [0x6CC, 0x20, 0x41, 0x20, 0x42]"
    by (simp add: normalize_persian_def replace_char_def strip_def is_space_def)
  show ?thesis
    using normalize_persian_idempotent
      [of "[0x20, 0x64A, 0x200C, 0x200C, 0x640, 0x41, 0x09, 0x0A, 0x42, 0x200C]"]
    by (simp only: e simp_thms)
qed

text \<open>
  Claim C2, as amended. \<open>parse_price\<close> parses a text by deleting every character that is
  not a decimal digit and reading all the digits that remain as one number (not only
  the leading run of digits); a text without digits has no price, and neither has one
  with more digits than the interpreter converts. A value that is no text is not parsed
  as text: \<open>None\<close> has no price, an integer is returned as it is and a float is truncated.
  In particular \<open>parse_price("12,500 \<dots>")\<close>, the number followed by the word toman,
  is 12500.
\<close>

theorem parse_price_all_digits:
  "parse_price L PNone = None \<and>
   parse_price L (PInt n) = Some n \<and>
   parse_price L (PFloat x) = float_trunc x \<and>
   parse_price L (PStr v) =
     (let ds = filter is_digit v
      in if ds = [] then None
         else if 640 < length ds \<and> 0 < int_max_str_digits L \<and> int_max_str_digits L < length ds
              then None
              else Some (int (digits_value ds))) \<and>
   parse_price L
     (PStr [0x31, 0x32, 0x2C, 0x35, 0x30, 0x30, 0x20, 0x62A, 0x648, 0x645, 0x627, 0x646])
     = Some 12500"
  using parse_price_text[of L v] parse_price_toman[of L]
  by (simp del: parse_price.simps(4))

text \<open>At the texts \<open>"1a2"\<close>, \<open>"\<emdash>"\<close> and \<open>""\<close>.\<close>

theorem parse_price_all_digits_witness:
  "parse_price demo_lib (PStr [0x31, 0x61, 0x32]) = Some 12 \<and>
   parse_price demo_lib (PStr [0x2014]) = None \<and>
   parse_price demo_lib (PStr []) = None"
proof -
  have a: "filter is_digit [0x31, 0x61, 0x32] = [0x31, 0x32]"
    by (simp add: is_digit_def decimal_value_def decimal_ranges_def)
  have b: "filter is_digit [0x2014] = []"
    by (simp add: is_digit_def decimal_value_def decimal_ranges_def)
  have c: "digits_value [0x31, 0x32] = 12"
    by (simp add: digits_value_def digit_of_def decimal_value_def decimal_ranges_def)
  note t = parse_price_all_digits[THEN conjunct2, THEN conjunct2, THEN conjunct2, THEN conjunct1]
  have "parse_price demo_lib (PStr [0x31, 0x61, 0x32]) = Some 12"
    using t[of demo_lib "[0x31, 0x61, 0x32]"] by (simp only: a c Let_def) simp
  moreover have "parse_price demo_lib (PStr [0x2014]) = None"
    using t[of demo_lib "[0x2014]"] by (simp only: b Let_def) simp
  moreover have "parse_price demo_lib (PStr []) = None"
    using t[of demo_lib "[]"] by (simp only: filter.simps Let_def) simp
  ultimately show ?thesis by simp
qed

text \<open>
  The claim as it is worded fails at the integer \<open>-5\<close>: the digits of its text are \<open>5\<close>,
  and \<open>parse_price\<close> returns \<open>-5\<close>.
\<close>

theorem parse_price_leading_run_counterexample:
  "parse_price demo_lib (PInt (- 5)) = Some (- 5) \<and>
   spec_parse_price demo_lib (PInt (- 5)) = Some 5"
  by (simp add: spec_parse_price_def str_of_int_def is_digit_def decimal_value_def
      decimal_ranges_def digits_value_def digit_of_def)

text \<open>
  Claim C1. The ranker should place the rows without a price (or a quantity) after the
  rows that have one, in both directions. In the descending direction \<open>search\<close> does
  the opposite: on the table of \<open>row_a\<close> (price 5, quantity 3) and \<open>row_b\<close> (neither),
  sorted by price or by quantity, \<open>row_b\<close> comes first; in the ascending direction it
  comes last. The key of the sort starts with the flag "has no value", and
  \<open>reverse=True\<close> reverses the flag with the rest of the key.
\<close>

theorem null_rows_first_when_descending:
  "map_sum id (\<lambda>resp. map res_price (results resp))
     (search demo_lib [] (Some [row_a, row_b])
        (default_intent\<lparr>sort_spec := \<lparr>sort_by = Price, direction = Desc\<rparr>\<rparr>))
     = Inr [None, Some 5] \<and>
   map_sum id (\<lambda>resp. map res_qty (results resp))
     (search demo_lib [] (Some [row_a, row_b])
        (default_intent\<lparr>sort_spec := \<lparr>sort_by = Qty, direction = Desc\<rparr>\<rparr>))
     = Inr [None, Some 3] \<and>
   map_sum id (\<lambda>resp. map res_price (results resp))
     (search demo_lib [] (Some [row_b, row_a])
        (default_intent\<lparr>sort_spec := \<lparr>sort_by = Price, direction = Asc\<rparr>\<rparr>))
     = Inr [Some 5, None]"
proof -
  have "map_sum id (\<lambda>resp. map res_price (results resp))
     (search demo_lib [] (Some [row_a, row_b])
        (default_intent\<lparr>sort_spec := \<lparr>sort_by = Price, direction = Desc\<rparr>\<rparr>))
     = Inr [None, Some 5]"
    by (subst plain_search)
       (simp_all add: plain_intents demo_rows_uploaded default_limit sorted_by_price_desc
          result_of_def demo_price_values)
  moreover have "map_sum id (\<lambda>resp. map res_qty (results resp))
     (search demo_lib [] (Some [row_a, row_b])
        (default_intent\<lparr>sort_spec := \<lparr>sort_by = Qty, direction = Desc\<rparr>\<rparr>))
     = Inr [None, Some 3]"
    by (subst plain_search)
       (simp_all add: plain_intents demo_rows_uploaded default_limit sorted_by_qty_desc
          result_of_def demo_price_values)
  moreover have "map_sum id (\<lambda>resp. map res_price (results resp))
     (search demo_lib [] (Some [row_b, row_a])
        (default_intent\<lparr>sort_spec := \<lparr>sort_by = Price, direction = Asc\<rparr>\<rparr>))
     = Inr [Some 5, None]"
    by (subst plain_search)
       (simp_all add: plain_intents demo_rows_uploaded default_limit sorted_by_price_asc
          result_of_def demo_price_values)
  ultimately show ?thesis by simp
qed



text \<open>
  Claim C6. For every intent, whatever its limit, the results of a search that answers
  are as many as the rows left by the price filter, or as the limit clamped to 1 and 50
  when that is less; the field \<open>count\<close> is that number.
\<close>

theorem results_length_clamped:
  assumes "search L B (Some table) intent = Inr resp"
  shows "\<exists>rows.
     select_rows L B table (intent\<lparr>query_text := normalize_query (query_text intent)\<rparr>)
       = Inr rows \<and>
     length (results resp) =
       min (length (filter (passes_price_filter L
                              (intent\<lparr>query_text := normalize_query (query_text intent)\<rparr>))
                      (map (make_item L) rows)))
           (nat (max 1 (min (limit intent) 50))) \<and>
     count resp = length (results resp) \<and>
     1 \<le> nat (max 1 (min (limit intent) 50)) \<and> nat (max 1 (min (limit intent) 50)) \<le> 50"
proof -
  let ?i = "intent\<lparr>query_text := normalize_query (query_text intent)\<rparr>"
  from assms obtain rows where rows: "select_rows L B table ?i = Inr rows"
    by (auto simp: search_Some Let_def split: sum.splits)
  with assms have
    "length (results resp) =
       min (length (filter (passes_price_filter L ?i) (map (make_item L) rows)))
           (nat (max 1 (min (limit intent) 50)))"
    and "count resp = length (results resp)"
    by (auto simp: search_Some Let_def limit_final_def length_sort_items min.commute)
  moreover have "1 \<le> nat (max 1 (min (limit intent) 50))"
    and "nat (max 1 (min (limit intent) 50)) \<le> 50"
  proof -
    have "(1::int) \<le> max 1 (min (limit intent) 50)"
      and "max 1 (min (limit intent) 50) \<le> (50::int)" by simp_all
    then show "1 \<le> nat (max 1 (min (limit intent) 50))"
      and "nat (max 1 (min (limit intent) 50)) \<le> 50" by linarith+
  qed
  ultimately show ?thesis using rows by blast
qed

text \<open>With the limit 0 on the table of \<open>row_a\<close> and \<open>row_b\<close>: one result.\<close>

theorem results_length_clamped_witness:
  "\<exists>resp. search demo_lib [] (Some [row_a, row_b]) (default_intent\<lparr>limit := 0\<rparr>) = Inr resp
      \<and> length (results resp) = 1 \<and> count resp = 1"
proof -
  let ?i = "default_intent\<lparr>limit := 0\<rparr>"
  have q: "?i\<lparr>query_text := normalize_query (query_text ?i)\<rparr> = ?i"
    by (simp add: default_intent_def normalize_query_def)
  have s: "select_rows demo_lib [] [row_a, row_b] ?i = Inr [row_a, row_b]"
    by (rule plain_select) (simp_all add: plain_intents demo_rows_uploaded)
  then obtain resp where resp: "search demo_lib [] (Some [row_a, row_b]) ?i = Inr resp"
    unfolding search_Some Let_def q by simp
  have p: "\<And>d. passes_price_filter demo_lib ?i d"
    by (simp add: passes_price_filter_def default_intent_def)
  have lim: "limit ?i = 0" by (simp add: default_intent_def)
  from results_length_clamped[OF resp] have "length (results resp) = 1 \<and> count resp = 1"
    unfolding q s lim by (simp add: p)
  with resp show ?thesis by blast
qed

text \<open>
  Claim C10. The stock filter has no effect: two intents that differ in
  \<open>filters.stock\<close> only compile to the same query and parameters and get the same
  answer from \<open>search\<close>.
\<close>

theorem stock_filter_ignored:
  "build_sql L B (intent\<lparr>filters := (filters intent)\<lparr>f_stock := s\<rparr>\<rparr>) = build_sql L B intent \<and>
   search L B db (intent\<lparr>filters := (filters intent)\<lparr>f_stock := s\<rparr>\<rparr>) = search L B db intent"
proof -
  let ?j = "intent\<lparr>filters := (filters intent)\<lparr>f_stock := s\<rparr>\<rparr>"
  have b: "\<And>i. build_sql L B (i\<lparr>filters := (filters i)\<lparr>f_stock := s\<rparr>\<rparr>) = build_sql L B i"
    by (simp add: build_sql_def uploaded_sql_def category_sql_def resolved_cats_def
        query_text_sql_def user_filters_present_def)
  have p: "\<And>i d. passes_price_filter L (i\<lparr>filters := (filters i)\<lparr>f_stock := s\<rparr>\<rparr>) d
            = passes_price_filter L i d"
    by (simp add: passes_price_filter_def)
  have c: "\<And>i d. compute_relevance_score L (i\<lparr>filters := (filters i)\<lparr>f_stock := s\<rparr>\<rparr>) d
            = compute_relevance_score L i d"
    by (simp add: compute_relevance_score_def)
  have n: "\<And>i. name_seed (i\<lparr>filters := (filters i)\<lparr>f_stock := s\<rparr>\<rparr>) = name_seed i"
    by (simp add: name_seed_def split: list.split)
  have f: "\<And>i. fallback_sql L (i\<lparr>filters := (filters i)\<lparr>f_stock := s\<rparr>\<rparr>) = fallback_sql L i"
    by (simp add: fallback_sql_def)
  have ff: "\<And>i t. fuzzy_fallback L t (i\<lparr>filters := (filters i)\<lparr>f_stock := s\<rparr>\<rparr>)
            = fuzzy_fallback L t i"
    unfolding fuzzy_fallback_def n f by (rule refl)
  have r: "\<And>i t. select_rows L B t (i\<lparr>filters := (filters i)\<lparr>f_stock := s\<rparr>\<rparr>)
            = select_rows L B t i"
    unfolding select_rows_def b n ff by (rule refl)
  have o: "\<And>i xs. sort_items (i\<lparr>filters := (filters i)\<lparr>f_stock := s\<rparr>\<rparr>) xs = sort_items i xs"
    by (simp add: sort_items_def)
  have l: "\<And>i. limit_final (i\<lparr>filters := (filters i)\<lparr>f_stock := s\<rparr>\<rparr>) = limit_final i"
    by (simp add: limit_final_def)
  have q: "?j\<lparr>query_text := normalize_query (query_text ?j)\<rparr>
           = (intent\<lparr>query_text := normalize_query (query_text intent)\<rparr>)
               \<lparr>filters := (filters (intent\<lparr>query_text := normalize_query (query_text intent)\<rparr>))
                  \<lparr>f_stock := s\<rparr>\<rparr>"
    by simp
  have "search L B db ?j = search L B db intent"
  proof (cases db)
    case None
    then show ?thesis by (simp add: search_def Let_def split_beta)
  next
    case (Some table)
    show ?thesis
      unfolding Some search_Some Let_def q b p c r o l
      by (simp split: sum.split)
  qed
  with b show ?thesis by simp
qed

text \<open>At the default intent, with and without \<open>in_stock_only\<close>, on an empty table.\<close>

theorem stock_filter_ignored_witness:
  "search demo_lib [] (Some [])
     (default_intent\<lparr>filters := (filters default_intent)\<lparr>f_stock := \<lparr>in_stock_only = Some True\<rparr>\<rparr>\<rparr>)
   = search demo_lib [] (Some []) default_intent"
  using stock_filter_ignored[where L = demo_lib and B = "[]" and intent = default_intent
      and s = "\<lparr>in_stock_only = Some True\<rparr>" and db = "Some []"]
  by simp

text \<open>
  Claim C3, as amended. For every intent with \<open>uploaded_only\<close>, every result of the
  search (of the first query or of the fuzzy fallback) is made of a stored row whose
  groupfamily is not NULL and is not empty once SQL's \<open>TRIM\<close> has removed the spaces at
  its ends; the groupfamily of the result is the normalized copy of the stored one.
  (The normalized copy is empty when the stored text is made of characters that the
  normalizer deletes or takes for whitespace.)
\<close>

theorem uploaded_only_groupfamily:
  assumes "search L B (Some table) intent = Inr resp" and "uploaded_only intent"
  shows "\<forall>res \<in> set (results resp). \<exists>r \<in> set table.
     r_groupfamily r \<noteq> PNone \<and> trim_not_empty (r_groupfamily r) \<and>
     res_groupfamily res = normalize_persian_any L (r_groupfamily r)"
proof
  fix res assume res: "res \<in> set (results resp)"
  let ?i = "intent\<lparr>query_text := normalize_query (query_text intent)\<rparr>"
  from assms(1) obtain rows where rows: "select_rows L B table ?i = Inr rows"
    by (auto simp: search_Some Let_def split: sum.splits)
  let ?items = "map (\<lambda>d. d\<lparr>score := compute_relevance_score L ?i d\<rparr>)
                  (filter (passes_price_filter L ?i) (map (make_item L) rows))"
  from assms(1) rows have
    "results resp = map result_of (take (nat (limit_final ?i)) (sort_items ?i ?items))"
    by (auto simp: search_Some Let_def)
  with res obtain d where d: "d \<in> set (take (nat (limit_final ?i)) (sort_items ?i ?items))"
    and rd: "res = result_of d" by auto
  from d have "d \<in> set ?items"
    using set_take_subset[of "nat (limit_final ?i)" "sort_items ?i ?items"]
    by (auto simp: set_sort_items)
  then obtain r where r: "r \<in> set rows"
    and dr: "d = (make_item L r)\<lparr>score := compute_relevance_score L ?i (make_item L r)\<rparr>"
    by auto
  have up: "uploaded_only ?i" using assms(2) by simp
  from select_rows_uploaded[OF up rows r]
  have "r \<in> set table" "r_groupfamily r \<noteq> PNone" "trim_not_empty (r_groupfamily r)"
    by simp_all
  moreover have "res_groupfamily res = normalize_persian_any L (r_groupfamily r)"
    unfolding rd dr by (simp add: result_of_def make_item_def)
  ultimately show "\<exists>r \<in> set table.
     r_groupfamily r \<noteq> PNone \<and> trim_not_empty (r_groupfamily r) \<and>
     res_groupfamily res = normalize_persian_any L (r_groupfamily r)" by blast
qed

text \<open>On the table of \<open>row_a\<close>, whose groupfamily is \<open>"g"\<close>.\<close>

theorem uploaded_only_groupfamily_witness:
  "\<exists>resp. search demo_lib [] (Some [row_a]) default_intent = Inr resp \<and>
     uploaded_only default_intent \<and> length (results resp) = 1 \<and>
     (\<forall>res \<in> set (results resp). \<exists>r \<in> set [row_a].
        r_groupfamily r \<noteq> PNone \<and> trim_not_empty (r_groupfamily r) \<and>
        res_groupfamily res = normalize_persian_any demo_lib (r_groupfamily r))"
proof -
  have q: "default_intent\<lparr>query_text := normalize_query (query_text default_intent)\<rparr>
           = default_intent"
    by (simp add: default_intent_def normalize_query_def)
  have s: "select_rows demo_lib [] [row_a] default_intent = Inr [row_a]"
    by (rule plain_select) (simp_all add: plain_intents demo_rows_uploaded)
  then obtain resp where resp: "search demo_lib [] (Some [row_a]) default_intent = Inr resp"
    unfolding search_Some Let_def q by simp
  have p: "\<And>d. passes_price_filter demo_lib default_intent d"
    by (simp add: passes_price_filter_def default_intent_def)
  have "length (results resp) = 1"
    using resp unfolding search_Some Let_def q s
    by (auto simp: p default_limit sort_items_single)
  with resp uploaded_only_groupfamily[OF resp plain_intents(11)] plain_intents(11)
  show ?thesis by blast
qed

text \<open>
  The claim as it is worded fails on the table of \<open>row_z\<close>, whose stored groupfamily is
  one zero-width non-joiner: the row passes \<open>TRIM("GroupFamily") != ""\<close>, and the
  groupfamily of the result is the empty string.
\<close>

theorem uploaded_only_groupfamily_counterexample:
  "uploaded_only default_intent \<and>
   map_sum id (\<lambda>resp. map res_groupfamily (results resp))
     (search demo_lib [] (Some [row_z]) default_intent) = Inr [[]]"
proof -
  have "map_sum id (\<lambda>resp. map res_groupfamily (results resp))
     (search demo_lib [] (Some [row_z]) default_intent) = Inr [[]]"
    by (subst plain_search)
       (simp_all add: plain_intents demo_rows_uploaded default_limit result_of_def
          demo_groupfamily sort_items_single)
  then show ?thesis by (simp add: plain_intents)
qed

text \<open>
  Claim C5. For every intent whose category list is exactly \<open>["s"]\<close>: if the normalized
  query text contains one of the seven pen keywords, the query that \<open>build_sql\<close>
  compiles has, after the conditions of \<open>uploaded_only\<close>, the condition \<open>IN (?, ?)\<close> with
  the parameters \<open>"s"\<close> and \<open>"l"\<close>, and it is true of a row exactly if the category of the
  row is \<open>"s"\<close> or \<open>"l"\<close> (and the other conditions hold); if the text contains no
  keyword, the condition is \<open>= ?\<close> with the parameter \<open>"s"\<close>, and the category of the row
  must be \<open>"s"\<close>. For every intent that supplies two or more category codes (codes that
  are not blank), the categories are never widened: the query asks for the codes as
  listed.
\<close>

theorem category_widening:
  assumes "category_given (category_code intent)"
  shows
   "(listed_cats L (category_code intent) = [[0x73]] \<and>
     (\<exists>k \<in> set pen_keywords. \<exists>u v. normalize_persian (query_text intent) = u @ k @ v) \<longrightarrow>
       build_sql L B intent =
         (\<lparr>sql_where = fst (uploaded_sql intent) @ [InList COL_CAT 2]
                         @ fst (other_sql L B intent),
           sql_limit = 1200\<rparr>,
          [[0x73], [0x6C]] @ snd (other_sql L B intent)) \<and>
       (\<forall>r. where_holds L r (sql_where (fst (build_sql L B intent))) (snd (build_sql L B intent))
              \<longleftrightarrow> where_holds L r (fst (uploaded_sql intent)) [] \<and>
                  (r_category_code r = PStr [0x73] \<or> r_category_code r = PStr [0x6C]) \<and>
                  where_holds L r (fst (other_sql L B intent)) (snd (other_sql L B intent)))) \<and>
    (listed_cats L (category_code intent) = [[0x73]] \<and>
     \<not> (\<exists>k \<in> set pen_keywords. \<exists>u v. normalize_persian (query_text intent) = u @ k @ v) \<longrightarrow>
       build_sql L B intent =
         (\<lparr>sql_where = fst (uploaded_sql intent) @ [Equals COL_CAT]
                         @ fst (other_sql L B intent),
           sql_limit = 1200\<rparr>,
          [[0x73]] @ snd (other_sql L B intent)) \<and>
       (\<forall>r. where_holds L r (sql_where (fst (build_sql L B intent))) (snd (build_sql L B intent))
              \<longleftrightarrow> where_holds L r (fst (uploaded_sql intent)) [] \<and>
                  r_category_code r = PStr [0x73] \<and>
                  where_holds L r (fst (other_sql L B intent)) (snd (other_sql L B intent)))) \<and>
    (\<forall>cs. category_code intent = Categories cs \<and> 2 \<le> length (filter (\<lambda>c. strip c \<noteq> []) cs) \<longrightarrow>
       resolved_cats L intent = listed_cats L (category_code intent) \<and>
       length (resolved_cats L intent) = length (filter (\<lambda>c. strip c \<noteq> []) cs) \<and>
       build_sql L B intent =
         (\<lparr>sql_where = fst (uploaded_sql intent)
                         @ [InList COL_CAT (length (listed_cats L (category_code intent)))]
                         @ fst (other_sql L B intent),
           sql_limit = 1200\<rparr>,
          listed_cats L (category_code intent) @ snd (other_sql L B intent)) \<and>
       (\<forall>r. where_holds L r (sql_where (fst (build_sql L B intent))) (snd (build_sql L B intent))
              \<longleftrightarrow> where_holds L r (fst (uploaded_sql intent)) [] \<and>
                  (\<exists>c \<in> set (listed_cats L (category_code intent)). r_category_code r = PStr c) \<and>
                  where_holds L r (fst (other_sql L B intent)) (snd (other_sql L B intent))))"
proof -
  let ?U = "fst (uploaded_sql intent)"
  let ?O = "fst (other_sql L B intent)"
  let ?P = "snd (other_sql L B intent)"
  let ?kw = "\<exists>k \<in> set pen_keywords. \<exists>u v. normalize_persian (query_text intent) = u @ k @ v"
  have kw: "list_ex (\<lambda>k. contains k (normalize_persian (query_text intent))) pen_keywords
     \<longleftrightarrow> ?kw"
    by (simp add: list_ex_iff contains_iff)
  have sem: "\<And>cw cp. category_sql L intent = (cw, cp)
      \<Longrightarrow> length cp = sum_list (map placeholders cw)
      \<Longrightarrow> build_sql L B intent = (\<lparr>sql_where = ?U @ cw @ ?O, sql_limit = 1200\<rparr>, cp @ ?P) \<and>
          (\<forall>r. where_holds L r (sql_where (fst (build_sql L B intent)))
                 (snd (build_sql L B intent))
             \<longleftrightarrow> where_holds L r ?U [] \<and> where_holds L r cw cp \<and> where_holds L r ?O ?P)"
    by (simp add: build_sql_blocks where_holds_blocks)
  have a: "listed_cats L (category_code intent) = [[0x73]] \<and> ?kw \<longrightarrow>
       build_sql L B intent =
         (\<lparr>sql_where = ?U @ [InList COL_CAT 2] @ ?O, sql_limit = 1200\<rparr>, [[0x73], [0x6C]] @ ?P) \<and>
       (\<forall>r. where_holds L r (sql_where (fst (build_sql L B intent))) (snd (build_sql L B intent))
              \<longleftrightarrow> where_holds L r ?U [] \<and>
                  (r_category_code r = PStr [0x73] \<or> r_category_code r = PStr [0x6C]) \<and>
                  where_holds L r ?O ?P)"
  proof (intro impI)
    assume h: "listed_cats L (category_code intent) = [[0x73]] \<and> ?kw"
    with assms kw have c: "category_sql L intent = ([InList COL_CAT 2], [[0x73], [0x6C]])"
      by (simp add: category_sql_def resolved_cats_def Let_def)
    have w: "\<And>r. where_holds L r [InList COL_CAT 2] [[0x73], [0x6C]]
        \<longleftrightarrow> r_category_code r = PStr [0x73] \<or> r_category_code r = PStr [0x6C]"
      by simp
    have pl: "length [[0x73], [0x6C :: nat]] = sum_list (map placeholders [InList COL_CAT 2])"
      by simp
    note e = sem[OF c pl, THEN conjunct1] and s = sem[OF c pl, THEN conjunct2, unfolded w]
    show
      "build_sql L B intent =
         (\<lparr>sql_where = ?U @ [InList COL_CAT 2] @ ?O, sql_limit = 1200\<rparr>, [[0x73], [0x6C]] @ ?P) \<and>
       (\<forall>r. where_holds L r (sql_where (fst (build_sql L B intent))) (snd (build_sql L B intent))
              \<longleftrightarrow> where_holds L r ?U [] \<and>
                  (r_category_code r = PStr [0x73] \<or> r_category_code r = PStr [0x6C]) \<and>
                  where_holds L r ?O ?P)"
      by (intro conjI) (rule e, rule s)
  qed
  have b: "listed_cats L (category_code intent) = [[0x73]] \<and> \<not> ?kw \<longrightarrow>
       build_sql L B intent =
         (\<lparr>sql_where = ?U @ [Equals COL_CAT] @ ?O, sql_limit = 1200\<rparr>, [[0x73]] @ ?P) \<and>
       (\<forall>r. where_holds L r (sql_where (fst (build_sql L B intent))) (snd (build_sql L B intent))
              \<longleftrightarrow> where_holds L r ?U [] \<and> r_category_code r = PStr [0x73] \<and>
                  where_holds L r ?O ?P)"
  proof (intro impI)
    assume h: "listed_cats L (category_code intent) = [[0x73]] \<and> \<not> ?kw"
    with assms kw have c: "category_sql L intent = ([Equals COL_CAT], [[0x73]])"
      by (simp add: category_sql_def resolved_cats_def Let_def)
    have w: "\<And>r. where_holds L r [Equals COL_CAT] [[0x73]]
        \<longleftrightarrow> r_category_code r = PStr [0x73]"
      by simp
    have pl: "length [[0x73 :: nat]] = sum_list (map placeholders [Equals COL_CAT])"
      by simp
    note e = sem[OF c pl, THEN conjunct1] and s = sem[OF c pl, THEN conjunct2, unfolded w]
    show
      "build_sql L B intent =
         (\<lparr>sql_where = ?U @ [Equals COL_CAT] @ ?O, sql_limit = 1200\<rparr>, [[0x73]] @ ?P) \<and>
       (\<forall>r. where_holds L r (sql_where (fst (build_sql L B intent))) (snd (build_sql L B intent))
              \<longleftrightarrow> where_holds L r ?U [] \<and> r_category_code r = PStr [0x73] \<and>
                  where_holds L r ?O ?P)"
      by (intro conjI) (rule e, rule s)
  qed
  have c: "\<forall>cs. category_code intent = Categories cs
        \<and> 2 \<le> length (filter (\<lambda>c. strip c \<noteq> []) cs) \<longrightarrow>
       resolved_cats L intent = listed_cats L (category_code intent) \<and>
       length (resolved_cats L intent) = length (filter (\<lambda>c. strip c \<noteq> []) cs) \<and>
       build_sql L B intent =
         (\<lparr>sql_where = ?U @ [InList COL_CAT (length (listed_cats L (category_code intent)))] @ ?O,
           sql_limit = 1200\<rparr>,
          listed_cats L (category_code intent) @ ?P) \<and>
       (\<forall>r. where_holds L r (sql_where (fst (build_sql L B intent))) (snd (build_sql L B intent))
              \<longleftrightarrow> where_holds L r ?U [] \<and>
                  (\<exists>c \<in> set (listed_cats L (category_code intent)). r_category_code r = PStr c) \<and>
                  where_holds L r ?O ?P)"
  proof (intro allI impI)
    fix cs
    let ?cats = "listed_cats L (category_code intent)"
    assume h: "category_code intent = Categories cs
        \<and> 2 \<le> length (filter (\<lambda>c. strip c \<noteq> []) cs)"
    then have len: "length ?cats = length (filter (\<lambda>c. strip c \<noteq> []) cs)" by simp
    with h have two: "2 \<le> length ?cats" by simp
    then have ne: "?cats \<noteq> [[0x73]]" by auto
    then have r: "resolved_cats L intent = ?cats"
      by (simp add: resolved_cats_def Let_def)
    from two obtain x y zs where xy: "?cats = x # y # zs"
      by (cases ?cats rule: remdups_adj.cases) auto
    with assms r have cat: "category_sql L intent = ([InList COL_CAT (length ?cats)], ?cats)"
      by (simp add: category_sql_def)
    have w: "\<And>r. where_holds L r [InList COL_CAT (length ?cats)] ?cats
        \<longleftrightarrow> (\<exists>c \<in> set ?cats. r_category_code r = PStr c)"
      by (simp add: list_ex_iff)
    have pl: "length ?cats = sum_list (map placeholders [InList COL_CAT (length ?cats)])"
      by simp
    note e = sem[OF cat pl, THEN conjunct1] and s = sem[OF cat pl, THEN conjunct2, unfolded w]
    from r len have "resolved_cats L intent = ?cats"
      and "length (resolved_cats L intent) = length (filter (\<lambda>c. strip c \<noteq> []) cs)"
      by simp_all
    with e s show
      "resolved_cats L intent = ?cats \<and>
       length (resolved_cats L intent) = length (filter (\<lambda>c. strip c \<noteq> []) cs) \<and>
       build_sql L B intent =
         (\<lparr>sql_where = ?U @ [InList COL_CAT (length ?cats)] @ ?O, sql_limit = 1200\<rparr>,
          ?cats @ ?P) \<and>
       (\<forall>r. where_holds L r (sql_where (fst (build_sql L B intent))) (snd (build_sql L B intent))
              \<longleftrightarrow> where_holds L r ?U [] \<and>
                  (\<exists>c \<in> set ?cats. r_category_code r = PStr c) \<and>
                  where_holds L r ?O ?P)"
      by (intro conjI)
  qed
  from a b c show ?thesis by blast
qed

text \<open>At the category \<open>"s"\<close> with the query text of the first keyword, at the category
  \<open>"s"\<close> with no query text, and at the categories \<open>"s"\<close> and \<open>"b"\<close> with the keyword.\<close>

theorem category_widening_witness:
  "build_sql demo_lib [] pen_intent =
     (\<lparr>sql_where = [IsNotNull COL_GROUPFAMILY, TrimNotEmpty COL_GROUPFAMILY, InList COL_CAT 2],
       sql_limit = 1200\<rparr>,
      [[0x73], [0x6C]]) \<and>
   build_sql demo_lib [] capped_intent =
     (\<lparr>sql_where = [IsNotNull COL_GROUPFAMILY, TrimNotEmpty COL_GROUPFAMILY, Equals COL_CAT],
       sql_limit = 1200\<rparr>,
      [[0x73]]) \<and>
   build_sql demo_lib [] (pen_intent\<lparr>category_code := Categories [[0x73], [0x62]]\<rparr>) =
     (\<lparr>sql_where = [IsNotNull COL_GROUPFAMILY, TrimNotEmpty COL_GROUPFAMILY, InList COL_CAT 2],
       sql_limit = 1200\<rparr>,
      [[0x73], [0x62]])"
proof -
  let ?two = "pen_intent\<lparr>category_code := Categories [[0x73], [0x62]]\<rparr>"
  have n: "normalize_persian [0x73] = [0x73]" "normalize_persian [0x62] = [0x62]"
    "normalize_persian [] = []"
    "normalize_persian [0x62E, 0x648, 0x62F, 0x6A9, 0x627, 0x631]
       = [0x62E, 0x648, 0x62F, 0x6A9, 0x627, 0x631]"
    by (simp_all add: normalize_persian_def replace_char_def strip_def is_space_def)
  have st: "strip [0x73] = [0x73]" "strip [0x62] = [0x62]"
    by (simp_all add: strip_def is_space_def)
  have lw: "str_lower demo_lib [0x73] = [0x73]" "str_lower demo_lib [0x62] = [0x62]"
    by (simp_all add: demo_lib_def ascii_lower_def ascii_fold_def)
  have g: "category_given (category_code pen_intent)"
    "category_given (category_code capped_intent)"
    "category_given (category_code ?two)"
    by (simp_all add: pen_intent_def capped_intent_def)
  have l: "listed_cats demo_lib (category_code pen_intent) = [[0x73]]"
    "listed_cats demo_lib (category_code capped_intent) = [[0x73]]"
    "listed_cats demo_lib (category_code ?two) = [[0x73], [0x62]]"
    by (simp_all add: pen_intent_def capped_intent_def n st lw)
  have u: "fst (uploaded_sql pen_intent) = [IsNotNull COL_GROUPFAMILY, TrimNotEmpty COL_GROUPFAMILY]"
    "fst (uploaded_sql capped_intent) = [IsNotNull COL_GROUPFAMILY, TrimNotEmpty COL_GROUPFAMILY]"
    "fst (uploaded_sql ?two) = [IsNotNull COL_GROUPFAMILY, TrimNotEmpty COL_GROUPFAMILY]"
    by (simp_all add: uploaded_sql_def pen_intent_def capped_intent_def default_intent_def)
  have o: "other_sql demo_lib [] pen_intent = ([], [])"
    "other_sql demo_lib [] capped_intent = ([], [])"
    "other_sql demo_lib [] ?two = ([], [])"
    by (simp_all add: other_sql_def join_sql_def apply_text_filter_def groupfamily_sql_def
        query_text_sql_def user_filters_present_def pen_intent_def capped_intent_def
        default_intent_def no_filter_def)
  have "[0x62E, 0x648, 0x62F, 0x6A9, 0x627, 0x631] \<in> set pen_keywords"
    by (simp add: pen_keywords_def)
  moreover have "normalize_persian (query_text pen_intent)
      = [] @ [0x62E, 0x648, 0x62F, 0x6A9, 0x627, 0x631] @ []"
    by (simp add: pen_intent_def n)
  ultimately have k: "\<exists>k \<in> set pen_keywords. \<exists>u v.
      normalize_persian (query_text pen_intent) = u @ k @ v" by blast
  have "\<not> list_ex (\<lambda>k. contains k (normalize_persian (query_text capped_intent))) pen_keywords"
    by (simp add: capped_intent_def default_intent_def n pen_keywords_def)
  then have nk: "\<not> (\<exists>k \<in> set pen_keywords. \<exists>u v.
      normalize_persian (query_text capped_intent) = u @ k @ v)"
    by (simp add: list_ex_iff contains_iff)
  have two: "category_code ?two = Categories [[0x73], [0x62]]
     \<and> 2 \<le> length (filter (\<lambda>c. strip c \<noteq> []) [[0x73], [0x62]])"
    by (simp add: st)
  have "build_sql demo_lib [] pen_intent =
     (\<lparr>sql_where = [IsNotNull COL_GROUPFAMILY, TrimNotEmpty COL_GROUPFAMILY, InList COL_CAT 2],
       sql_limit = 1200\<rparr>, [[0x73], [0x6C]])"
    using category_widening[OF g(1), of demo_lib "[]", THEN conjunct1] l(1) k
    unfolding u o by simp
  moreover have "build_sql demo_lib [] capped_intent =
     (\<lparr>sql_where = [IsNotNull COL_GROUPFAMILY, TrimNotEmpty COL_GROUPFAMILY, Equals COL_CAT],
       sql_limit = 1200\<rparr>, [[0x73]])"
    using category_widening[OF g(2), of demo_lib "[]", THEN conjunct2, THEN conjunct1] l(2) nk
    unfolding u o by simp
  moreover have "build_sql demo_lib [] ?two =
     (\<lparr>sql_where = [IsNotNull COL_GROUPFAMILY, TrimNotEmpty COL_GROUPFAMILY, InList COL_CAT 2],
       sql_limit = 1200\<rparr>, [[0x73], [0x62]])"
    using category_widening[OF g(3), of demo_lib "[]", THEN conjunct2, THEN conjunct2,
        rule_format, OF two]
    unfolding u o l by simp
  ultimately show ?thesis by simp
qed

text \<open>
  Claim C8, as amended. \<open>expand_brand_terms\<close> returns the group of the first entry of
  the alias map that holds the term, compared normalized and in lower case. So for an
  entry with the canonical brand \<open>k\<close> and the aliases \<open>A\<close>, and an alias \<open>a\<close> of \<open>A\<close>: if no
  entry before it holds \<open>k\<close> or \<open>a\<close>, both expand to the group \<open>k\<close> with all of \<open>A\<close>, and
  the publisher filters \<open>include=[k]\<close> and \<open>include=[a]\<close> compile to the same group of
  \<open>OR\<close> terms (when neither is blank). A term that no entry holds expands to itself
  alone.
\<close>

theorem alias_expansion_first_match:
  "(a \<in> set A \<and>
    (\<forall>(k', A') \<in> set pre. \<forall>x \<in> set (k' # A').
        str_lower L (normalize_persian x) \<noteq> str_lower L (normalize_persian k) \<and>
        str_lower L (normalize_persian x) \<noteq> str_lower L (normalize_persian a)) \<longrightarrow>
      expand_brand_terms L (pre @ (k, A) # post) k = k # A \<and>
      expand_brand_terms L (pre @ (k, A) # post) a = k # A \<and>
      (normalize_persian k \<noteq> [] \<and> normalize_persian a \<noteq> [] \<longrightarrow>
         apply_text_filter L (pre @ (k, A) # post) COL_PUBLISHER \<lparr>tf_include = [k], tf_exclude = []\<rparr>
           = ([AnyLike (map (\<lambda>_. COL_PUBLISHER) (k # A))],
              map (\<lambda>term. like_pattern (normalize_persian term)) (k # A)) \<and>
         apply_text_filter L (pre @ (k, A) # post) COL_PUBLISHER \<lparr>tf_include = [a], tf_exclude = []\<rparr>
           = apply_text_filter L (pre @ (k, A) # post) COL_PUBLISHER
               \<lparr>tf_include = [k], tf_exclude = []\<rparr>)) \<and>
   ((\<forall>(k', A') \<in> set B. \<forall>x \<in> set (k' # A').
        str_lower L (normalize_persian x) \<noteq> str_lower L (normalize_persian t)) \<longrightarrow>
      expand_brand_terms L B t = [t])"
proof -
  let ?B = "pre @ (k, A) # post"
  let ?n = "\<lambda>x. str_lower L (normalize_persian x)"
  {
    assume a: "a \<in> set A"
      and pre: "\<forall>(k', A') \<in> set pre. \<forall>x \<in> set (k' # A'). ?n x \<noteq> ?n k \<and> ?n x \<noteq> ?n a"
    have nn: "\<And>t. ?n (normalize_persian t) = ?n t" by (simp add: normalize_persian_idem)
    have pk: "\<forall>(k', A') \<in> set pre. \<forall>x \<in> set (k' # A'). ?n x \<noteq> ?n k"
      and pa: "\<forall>(k', A') \<in> set pre. \<forall>x \<in> set (k' # A'). ?n x \<noteq> ?n a"
      using pre by auto
    have hk: "\<exists>x \<in> set (k # A). ?n x = ?n k" by simp
    have ha: "\<exists>x \<in> set (k # A). ?n x = ?n a" using a by auto
    have ek: "expand_brand_terms L ?B k = k # A"
      by (rule expand_first_match[OF pk hk])
    have ea: "expand_brand_terms L ?B a = k # A"
      by (rule expand_first_match[OF pa ha])
    have ek': "expand_brand_terms L ?B (normalize_persian k) = k # A"
      by (rule expand_first_match) (use pk hk in \<open>simp_all only: nn\<close>)
    have ea': "expand_brand_terms L ?B (normalize_persian a) = k # A"
      by (rule expand_first_match) (use pa ha in \<open>simp_all only: nn\<close>)
    have ne: "?B \<noteq> []" by simp
    have "normalize_persian k \<noteq> [] \<and> normalize_persian a \<noteq> [] \<longrightarrow>
         apply_text_filter L ?B COL_PUBLISHER \<lparr>tf_include = [k], tf_exclude = []\<rparr>
           = ([AnyLike (map (\<lambda>_. COL_PUBLISHER) (k # A))],
              map (\<lambda>term. like_pattern (normalize_persian term)) (k # A)) \<and>
         apply_text_filter L ?B COL_PUBLISHER \<lparr>tf_include = [a], tf_exclude = []\<rparr>
           = apply_text_filter L ?B COL_PUBLISHER \<lparr>tf_include = [k], tf_exclude = []\<rparr>"
      by (simp add: apply_text_filter_def join_sql_def include_sql_publisher[OF ne] ek' ea')
    with ek ea have "expand_brand_terms L ?B k = k # A \<and>
      expand_brand_terms L ?B a = k # A \<and>
      (normalize_persian k \<noteq> [] \<and> normalize_persian a \<noteq> [] \<longrightarrow>
         apply_text_filter L ?B COL_PUBLISHER \<lparr>tf_include = [k], tf_exclude = []\<rparr>
           = ([AnyLike (map (\<lambda>_. COL_PUBLISHER) (k # A))],
              map (\<lambda>term. like_pattern (normalize_persian term)) (k # A)) \<and>
         apply_text_filter L ?B COL_PUBLISHER \<lparr>tf_include = [a], tf_exclude = []\<rparr>
           = apply_text_filter L ?B COL_PUBLISHER \<lparr>tf_include = [k], tf_exclude = []\<rparr>)"
      by blast
  }
  moreover have "(\<forall>(k', A') \<in> set B. \<forall>x \<in> set (k' # A'). ?n x \<noteq> ?n t) \<longrightarrow>
      expand_brand_terms L B t = [t]"
    using expand_no_match[of B L t] by blast
  ultimately show ?thesis by blast
qed

text \<open>In the map \<open>shared_aliases\<close>: the first entry, its alias \<open>"z"\<close>, and the term \<open>"w"\<close>
  that no entry holds.\<close>

theorem alias_expansion_first_match_witness:
  "expand_brand_terms demo_lib shared_aliases [0x78] = [[0x78], [0x7A]] \<and>
   expand_brand_terms demo_lib shared_aliases [0x7A] = [[0x78], [0x7A]] \<and>
   expand_brand_terms demo_lib shared_aliases [0x77] = [[0x77]]"
proof -
  have n: "normalize_persian [0x78] = [0x78]" "normalize_persian [0x79] = [0x79]"
    "normalize_persian [0x7A] = [0x7A]" "normalize_persian [0x77] = [0x77]"
    by (simp_all add: normalize_persian_def replace_char_def strip_def is_space_def)
  have lw: "\<And>c. str_lower demo_lib [c] = [ascii_fold c]"
    by (simp add: demo_lib_def ascii_lower_def)
  have f: "ascii_fold 0x78 = 0x78" "ascii_fold 0x79 = 0x79" "ascii_fold 0x7A = 0x7A"
    "ascii_fold 0x77 = 0x77"
    by (simp_all add: ascii_fold_def)
  have s: "shared_aliases = [] @ ([0x78], [[0x7A]]) # [([0x79], [[0x7A]])]"
    by (simp add: shared_aliases_def)
  note t = alias_expansion_first_match[where L = demo_lib and pre = "[]" and k = "[0x78]"
      and A = "[[0x7A]]" and post = "[([0x79], [[0x7A]])]" and a = "[0x7A]"
      and B = shared_aliases and t = "[0x77]", folded s]
  have "\<forall>(k', A') \<in> set shared_aliases. \<forall>x \<in> set (k' # A').
        str_lower demo_lib (normalize_persian x) \<noteq> str_lower demo_lib (normalize_persian [0x77])"
    by (simp add: shared_aliases_def n lw f)
  with t show ?thesis by simp
qed

text \<open>
  The claim as it is worded fails in the map \<open>shared_aliases\<close>: the canonical brand \<open>"y"\<close>
  expands to its own group, and its alias \<open>"z"\<close> to the group of \<open>"x"\<close>, the first entry
  that holds it.
\<close>

theorem alias_symmetry_counterexample:
  "([0x79], [[0x7A]]) \<in> set shared_aliases \<and>
   expand_brand_terms demo_lib shared_aliases [0x79] = [[0x79], [0x7A]] \<and>
   expand_brand_terms demo_lib shared_aliases [0x7A] = [[0x78], [0x7A]]"
proof -
  have n: "normalize_persian [0x78] = [0x78]" "normalize_persian [0x79] = [0x79]"
    "normalize_persian [0x7A] = [0x7A]"
    by (simp_all add: normalize_persian_def replace_char_def strip_def is_space_def)
  have lw: "\<And>c. str_lower demo_lib [c] = [ascii_fold c]"
    by (simp add: demo_lib_def ascii_lower_def)
  have f: "ascii_fold 0x78 = 0x78" "ascii_fold 0x79 = 0x79" "ascii_fold 0x7A = 0x7A"
    by (simp_all add: ascii_fold_def)
  show ?thesis by (simp add: shared_aliases_def n lw f)
qed

text \<open>
  Claim C4. Let the seed be the first include term of the name filter, normalized, if
  there is one, and else the normalized query text. The fuzzy fallback runs exactly if
  the first query returns no row and the seed is not empty. When it runs and returns,
  a candidate is kept exactly if its similarity to the seed is at least \<open>0.72\<close>, that
  is, at least the double \<open>3242591731706757 / 2 ^ 52\<close> that the literal \<open>0.72\<close> denotes
  (the double nearest to \<open>72 / 100\<close>): a similarity equal to it is kept, any smaller one
  is dropped. The rows returned are the kept candidates in the order of descending
  similarity, cut to the first 1200. The ratio of \<open>difflib\<close> is 0 between a string that
  is not empty and the empty string: of the library it is assumed that this ratio is
  below \<open>0.72\<close>.
\<close>

theorem fuzzy_fallback_stage:
  assumes "\<forall>a. a \<noteq> [] \<longrightarrow> seq_ratio L a [] < 3242591731706757 / 4503599627370496"
  shows
   "\<bar>3242591731706757 / 4503599627370496 - 72 / 100\<bar> \<le> (1 / 2 ^ 54 :: rat) \<and>
    (let i = intent\<lparr>query_text := normalize_query (query_text intent)\<rparr>;
         primary = execute L table (fst (build_sql L B i)) (snd (build_sql L B i));
         seed = name_seed i;
         candidates = execute L table (fst (fallback_sql L i)) (snd (fallback_sql L i));
         kept = filter (\<lambda>r. 3242591731706757 / 4503599627370496 \<le> row_similarity L seed r)
                  candidates
     in seed = (case tf_include (f_name (filters intent)) of
                  t # _ \<Rightarrow> normalize_query t
                | [] \<Rightarrow> normalize_query (query_text intent)) \<and>
        (primary = [] \<and> seed \<noteq> [] \<longrightarrow> select_rows L B table i = fuzzy_fallback L table i) \<and>
        (\<not> (primary = [] \<and> seed \<noteq> []) \<longrightarrow> select_rows L B table i = Inr primary) \<and>
        (\<forall>rows. seed \<noteq> [] \<and> fuzzy_fallback L table i = Inr rows \<longrightarrow>
           rows = take 1200 (py_sort (row_similarity L seed) True kept) \<and>
           sorted_wrt (\<lambda>x y. y \<le> x) (map (row_similarity L seed) rows) \<and>
           length rows \<le> 1200 \<and>
           (\<forall>r \<in> set rows. r \<in> set candidates \<and>
               3242591731706757 / 4503599627370496 \<le> row_similarity L seed r) \<and>
           (length kept \<le> 1200 \<longrightarrow>
              (\<forall>r \<in> set candidates.
                  r \<in> set rows
                    \<longleftrightarrow> 3242591731706757 / 4503599627370496 \<le> row_similarity L seed r))))"
proof -
  let ?c = "3242591731706757 / 4503599627370496 :: rat"
  let ?i = "intent\<lparr>query_text := normalize_query (query_text intent)\<rparr>"
  let ?seed = "name_seed ?i"
  let ?cs = "execute L table (fst (fallback_sql L ?i)) (snd (fallback_sql L ?i))"
  let ?kept = "filter (\<lambda>r. ?c \<le> row_similarity L ?seed r) ?cs"
  have cut: "cutoff = ?c" by (simp add: cutoff_def)
  have near: "\<bar>?c - 72 / 100\<bar> \<le> (1 / 2 ^ 54 :: rat)" by simp
  have low: "\<forall>a. a \<noteq> [] \<longrightarrow> seq_ratio L a [] < cutoff" using assms unfolding cut .
  have run: "\<forall>rows. ?seed \<noteq> [] \<and> fuzzy_fallback L table ?i = Inr rows \<longrightarrow>
          rows = take 1200 (py_sort (row_similarity L ?seed) True ?kept) \<and>
          sorted_wrt (\<lambda>x y. y \<le> x) (map (row_similarity L ?seed) rows) \<and>
          length rows \<le> 1200 \<and>
          (\<forall>r \<in> set rows. r \<in> set ?cs \<and> ?c \<le> row_similarity L ?seed r) \<and>
          (length ?kept \<le> 1200 \<longrightarrow>
             (\<forall>r \<in> set ?cs. r \<in> set rows \<longleftrightarrow> ?c \<le> row_similarity L ?seed r))"
  proof (intro allI impI)
    fix rows assume h: "?seed \<noteq> [] \<and> fuzzy_fallback L table ?i = Inr rows"
    have rows: "rows = take 1200 (py_sort (row_similarity L ?seed) True ?kept)"
      unfolding cut[symmetric]
      by (rule fuzzy_fallback_eq[OF low name_seed_normal]) (use h in simp_all)
    have "sorted_wrt (\<lambda>x y. y \<le> x)
            (take 1200 (map (row_similarity L ?seed) (py_sort (row_similarity L ?seed) True ?kept)))"
      by (rule sorted_wrt_take) (rule py_sort_descending)
    then have srt: "sorted_wrt (\<lambda>x y. y \<le> x) (map (row_similarity L ?seed) rows)"
      unfolding rows by (simp add: take_map)
    have len: "length rows \<le> 1200" unfolding rows by simp
    have "set rows \<subseteq> set (py_sort (row_similarity L ?seed) True ?kept)"
      unfolding rows by (rule set_take_subset)
    then have sub: "set rows \<subseteq> set ?kept" by (simp add: set_py_sort)
    then have mem: "\<forall>r \<in> set rows. r \<in> set ?cs \<and> ?c \<le> row_similarity L ?seed r"
      by auto
    have all: "length ?kept \<le> 1200 \<longrightarrow>
        (\<forall>r \<in> set ?cs. r \<in> set rows \<longleftrightarrow> ?c \<le> row_similarity L ?seed r)"
    proof
      assume "length ?kept \<le> 1200"
      then have "rows = py_sort (row_similarity L ?seed) True ?kept"
        unfolding rows by (simp add: length_py_sort)
      then have "set rows = set ?kept" by (simp add: set_py_sort)
      then show "\<forall>r \<in> set ?cs. r \<in> set rows \<longleftrightarrow> ?c \<le> row_similarity L ?seed r"
        by simp
    qed
    from rows srt len mem all show
      "rows = take 1200 (py_sort (row_similarity L ?seed) True ?kept) \<and>
       sorted_wrt (\<lambda>x y. y \<le> x) (map (row_similarity L ?seed) rows) \<and>
       length rows \<le> 1200 \<and>
       (\<forall>r \<in> set rows. r \<in> set ?cs \<and> ?c \<le> row_similarity L ?seed r) \<and>
       (length ?kept \<le> 1200 \<longrightarrow>
          (\<forall>r \<in> set ?cs. r \<in> set rows \<longleftrightarrow> ?c \<le> row_similarity L ?seed r))"
      by (intro conjI)
  qed
  have sel: "(execute L table (fst (build_sql L B ?i)) (snd (build_sql L B ?i)) = []
        \<and> ?seed \<noteq> [] \<longrightarrow> select_rows L B table ?i = fuzzy_fallback L table ?i) \<and>
     (\<not> (execute L table (fst (build_sql L B ?i)) (snd (build_sql L B ?i)) = []
          \<and> ?seed \<noteq> []) \<longrightarrow>
        select_rows L B table ?i
          = Inr (execute L table (fst (build_sql L B ?i)) (snd (build_sql L B ?i))))"
    by (simp add: select_rows_def split_beta Let_def)
  show ?thesis
    unfolding Let_def using near run sel name_seed_prepared[of intent] by blast
qed

text \<open>
  On the table of \<open>row_near\<close> and \<open>row_hit\<close> with the intent \<open>seed_intent\<close>: the first query
  finds no name that contains the seed, and the fallback keeps \<open>row_hit\<close>, whose
  similarity to the seed is the double \<open>0.72\<close> itself, and drops \<open>row_near\<close>, whose
  similarity is the double \<open>0.7096\<dots>\<close>.
\<close>

theorem fuzzy_fallback_stage_witness:
  "row_similarity boundary_lib seed_name row_hit = 3242591731706757 / 4503599627370496 \<and>
   row_similarity boundary_lib seed_name row_near = 3196102961359707 / 4503599627370496 \<and>
   execute boundary_lib [row_near, row_hit] (fst (build_sql boundary_lib [] seed_intent))
     (snd (build_sql boundary_lib [] seed_intent)) = [] \<and>
   name_seed seed_intent = seed_name \<and>
   fuzzy_fallback boundary_lib [row_near, row_hit] seed_intent = Inr [row_hit] \<and>
   select_rows boundary_lib [] [row_near, row_hit] seed_intent = Inr [row_hit]"
proof -
  let ?c = "3242591731706757 / 4503599627370496 :: rat"
  let ?t = "[row_near, row_hit]"
  have ne: "seed_name \<noteq> hit_name" "seed_name \<noteq> near_name" "seed_name \<noteq> []"
    "hit_name \<noteq> []" "near_name \<noteq> []" "near_name \<noteq> hit_name"
    by (simp_all add: seed_name_def hit_name_def near_name_def)
  have ratio: "seq_ratio boundary_lib seed_name hit_name = ?c"
    "seq_ratio boundary_lib seed_name near_name = 3196102961359707 / 4503599627370496"
    using ne by (simp_all add: boundary_lib_def)
  have low: "\<forall>a. a \<noteq> [] \<longrightarrow> seq_ratio boundary_lib a [] < ?c"
    using ne by (simp add: boundary_lib_def)
  have q: "seed_intent\<lparr>query_text := normalize_query (query_text seed_intent)\<rparr> = seed_intent"
    by (simp add: seed_intent_def default_intent_def normalize_query_def)
  have sp: "strip seed_name = seed_name" "strip hit_name = hit_name" "strip near_name = near_name"
    by (simp_all add: seed_name_def hit_name_def near_name_def strip_def is_space_def)
  have fq: "filter (\<lambda>c. c \<noteq> 0x61F \<and> c \<noteq> 0x3F) seed_name = seed_name"
    "filter (\<lambda>c. c \<noteq> 0x61F \<and> c \<noteq> 0x3F) hit_name = hit_name"
    "filter (\<lambda>c. c \<noteq> 0x61F \<and> c \<noteq> 0x3F) near_name = near_name"
    by (simp_all add: seed_name_def hit_name_def near_name_def)
  have cl: "collapse_spaces seed_name = seed_name" "collapse_spaces hit_name = hit_name"
    "collapse_spaces near_name = near_name"
    by (simp_all add: seed_name_def hit_name_def near_name_def is_space_def)
  have rp: "\<And>s. s \<in> {seed_name, hit_name, near_name} \<Longrightarrow>
      replace_char 0x640 [] (replace_char 0x200C [0x20]
        (replace_char 0x643 [0x6A9] (replace_char 0x64A [0x6CC] s))) = s"
    by (auto simp: seed_name_def hit_name_def near_name_def replace_char_def)
  have n: "normalize_persian seed_name = seed_name" "normalize_persian hit_name = hit_name"
    "normalize_persian near_name = near_name"
    by (simp_all add: normalize_persian_def rp cl sp)
  have nq: "normalize_query seed_name = seed_name" "normalize_query hit_name = hit_name"
    "normalize_query near_name = near_name"
    using ne by (simp_all add: normalize_query_def sp fq cl n)
  have seed: "name_seed seed_intent = seed_name"
    by (simp add: name_seed_def seed_intent_def default_intent_def nq)
  have b: "build_sql boundary_lib [] seed_intent =
      (\<lparr>sql_where = [IsNotNull COL_GROUPFAMILY, TrimNotEmpty COL_GROUPFAMILY, AnyLike [COL_NAME]],
        sql_limit = 1200\<rparr>, [like_pattern seed_name])"
    using ne
    by (simp add: build_sql_def join_sql_def uploaded_sql_def category_sql_def
        apply_text_filter_def include_sql_def exclude_sql_def groupfamily_sql_def
        query_text_sql_def user_filters_present_def normalize_query_def
        seed_intent_def default_intent_def no_filter_def n)
  have lk: "\<not> like_match (like_pattern seed_name) hit_name"
    "\<not> like_match (like_pattern seed_name) near_name"
    by (simp_all add: like_pattern_def seed_name_def hit_name_def near_name_def ascii_fold_def)
  have lv: "\<not> like boundary_lib (PStr hit_name) (like_pattern seed_name)"
    "\<not> like boundary_lib (PStr near_name) (like_pattern seed_name)"
    using lk by (simp_all add: like_def boundary_lib_def demo_lib_def)
  have nm: "r_name row_hit = PStr hit_name" "r_name row_near = PStr near_name"
    "r_groupfamily row_hit = PStr [0x67]" "r_groupfamily row_near = PStr [0x67]"
    by (simp_all add: row_hit_def row_near_def demo_row_def)
  have primary: "execute boundary_lib ?t (fst (build_sql boundary_lib [] seed_intent))
     (snd (build_sql boundary_lib [] seed_intent)) = []"
    by (simp add: b execute_def nm lv)
  have f: "fallback_sql boundary_lib seed_intent =
      (\<lparr>sql_where = [IsNotNull COL_GROUPFAMILY, TrimNotEmpty COL_GROUPFAMILY],
        sql_limit = 2500\<rparr>, [])"
    by (simp add: fallback_sql_def join_sql_def seed_intent_def default_intent_def)
  have cs: "execute boundary_lib ?t (fst (fallback_sql boundary_lib seed_intent))
     (snd (fallback_sql boundary_lib seed_intent)) = ?t"
    by (simp add: f execute_def nm sql_trim_def)
  have pn: "pname_of row_hit = hit_name" "pname_of row_near = near_name"
    by (simp_all add: pname_of_def nm nq)
  have sm: "row_similarity boundary_lib seed_name row_hit = ?c"
    "row_similarity boundary_lib seed_name row_near = 3196102961359707 / 4503599627370496"
    by (simp_all add: row_similarity_def similarity_def pn n ratio)
  have si: "similarity boundary_lib seed_name hit_name = ?c"
    "similarity boundary_lib seed_name near_name = 3196102961359707 / 4503599627370496"
    by (simp_all add: similarity_def n ratio)
  have scan: "fuzzy_scan boundary_lib seed_name ?t = Inr [(?c, row_hit)]"
    using ne by (simp add: nm nq si cutoff_def)
  have fb: "fuzzy_fallback boundary_lib ?t seed_intent = Inr [row_hit]"
  proof -
    have "fuzzy_fallback boundary_lib ?t seed_intent =
        (case fuzzy_scan boundary_lib (name_seed seed_intent)
                (execute boundary_lib ?t (fst (fallback_sql boundary_lib seed_intent))
                   (snd (fallback_sql boundary_lib seed_intent))) of
           Inl e \<Rightarrow> Inl e
         | Inr ms \<Rightarrow> Inr (map snd (take 1200 (py_sort fst True ms))))"
      by (simp add: fuzzy_fallback_def split_beta)
    then show ?thesis unfolding cs seed scan by (simp add: py_sort_def)
  qed
  note t = fuzzy_fallback_stage[OF low, of seed_intent ?t "[]", THEN conjunct2,
      unfolded Let_def q]
  from t primary seed ne have
    "select_rows boundary_lib [] ?t seed_intent = fuzzy_fallback boundary_lib ?t seed_intent"
    by simp
  with sm primary seed fb show ?thesis by simp
qed

end
